theory Spec2Isabelle
  imports Complex_Main "HOL-Library.Sublist"
begin

section \<open>Strings\<close>

text \<open>
  Go strings are byte sequences; they are modelled as \<open>string\<close> (a list of
  \<open>char\<close>, one per byte). \<^verbatim>\<open>strings.HasPrefix\<close>, \<^verbatim>\<open>strings.Contains\<close>,
  \<^verbatim>\<open>strings.TrimPrefix\<close> and \<^verbatim>\<open>strings.Split\<close> compare bytes and are written out
  below. \<^verbatim>\<open>strings.ToLower\<close>, \<^verbatim>\<open>strings.TrimSpace\<close> and \<^verbatim>\<open>strings.Fields\<close>
  depend on the Unicode tables of the Go library and \<^verbatim>\<open>strconv.ParseFloat\<close> on its
  number syntax; none of them is code of the repository. They are the four fields of a
  record \<open>lib\<close> that every function calling them takes as a parameter, so that what is
  proved below holds for the library functions whatever they return. For
  \<open>ParseFloat\<close>, \<open>None\<close> stands for a non-nil error.
\<close>

record GoLibrary =
  ParseFloat :: "string \<Rightarrow> real option"
  ToLower :: "string \<Rightarrow> string"
  TrimSpace :: "string \<Rightarrow> string"
  Fields :: "string \<Rightarrow> string list"

fun HasPrefix :: "string \<Rightarrow> string \<Rightarrow> bool" where
  "HasPrefix s [] = True"
| "HasPrefix [] (p # ps) = False"
| "HasPrefix (c # s) (p # ps) = (c = p \<and> HasPrefix s ps)"

fun Contains :: "string \<Rightarrow> string \<Rightarrow> bool" where
  "Contains [] substr = (substr = [])"
| "Contains (c # s) substr = (HasPrefix (c # s) substr \<or> Contains s substr)"

definition TrimPrefix :: "string \<Rightarrow> string \<Rightarrow> string" where
  "TrimPrefix s p = (if HasPrefix s p then drop (length p) s else s)"

text \<open>
  \<^verbatim>\<open>strings.Split\<close> with a separator of one byte, which is what both call sites pass
  (a line feed and a colon). The result always has at least one element.
\<close>

fun Split :: "string \<Rightarrow> char \<Rightarrow> string list" where
  "Split [] sep = [[]]"
| "Split (c # s) sep =
     (if c = sep then [] # Split s sep
      else (case Split s sep of
              [] \<Rightarrow> [[c]]
            | x # xs \<Rightarrow> (c # x) # xs))"

text \<open>
  Decimal formatting of an integer (the verb \<^verbatim>\<open>%d\<close>), and \<^verbatim>\<open>fmt.Sprintf\<close> for
  formats built from literal text and \<^verbatim>\<open>%d\<close>, the only verb in the formats the driver
  applies to arguments. A verb with no argument left prints \<^verbatim>\<open>%!d(MISSING)\<close>, and
  arguments left over are reported at the end, as Go does.
\<close>

fun natDigits :: "nat \<Rightarrow> string" where
  "natDigits n =
     (if n < 10 then [''0123456789'' ! n]
      else natDigits (n div 10) @ [''0123456789'' ! (n mod 10)])"

declare natDigits.simps [simp del]

definition Itoa :: "int \<Rightarrow> string" where
  "Itoa i = (if i < 0 then CHR ''-'' # natDigits (nat (- i)) else natDigits (nat i))"

fun joinComma :: "string list \<Rightarrow> string" where
  "joinComma [] = []"
| "joinComma [x] = x"
| "joinComma (x # y # ys) = x @ '', '' @ joinComma (y # ys)"

definition extraArgs :: "int list \<Rightarrow> string" where
  "extraArgs args =
     (if args = [] then []
      else ''%!(EXTRA '' @ joinComma (map (\<lambda>a. ''int='' @ Itoa a) args) @ '')'')"

fun Sprintf :: "string \<Rightarrow> int list \<Rightarrow> string" where
  "Sprintf [] args = extraArgs args"
| "Sprintf [c] args = c # extraArgs args"
| "Sprintf (c # d # fmt) args =
     (if c = CHR ''%'' \<and> d = CHR ''d'' then
        (case args of
           [] \<Rightarrow> ''%!d(MISSING)'' @ Sprintf fmt []
         | a # rest \<Rightarrow> Itoa a @ Sprintf fmt rest)
      else c # Sprintf (d # fmt) args)"

section \<open>Errors\<close>

text \<open>
  The source builds its errors with \<^verbatim>\<open>errors.New\<close> and \<^verbatim>\<open>fmt.Errorf\<close>; each
  constructor below stands for one of those messages, and an error that the message
  embeds with \<^verbatim>\<open>%v\<close> is the constructor's argument.
  \<^item> \<open>ErrNotConnected\<close>: \<^verbatim>\<open>"device not open"\<close>;
  \<^item> \<open>ErrPort msg\<close>: an error returned by the serial port, \<open>msg\<close> its text;
  \<^item> \<open>ErrWriteFailed e\<close>: \<^verbatim>\<open>"failed to write command: %v"\<close>;
  \<^item> \<open>ErrOutOfRange StartBelowMin\<close>: \<^verbatim>\<open>"start frequency %d Hz is below minimum ..."\<close>,
    \<open>ErrOutOfRange StopAboveMax\<close>: \<^verbatim>\<open>"stop frequency %d Hz is above maximum ..."\<close>,
    \<open>ErrOutOfRange PointsAboveMax\<close>: \<^verbatim>\<open>"requested %d points exceeds maximum ..."\<close>;
  \<^item> \<open>ErrCommandFailed e\<close>: \<^verbatim>\<open>"failed to set sweep config with any V2 command format: %v"\<close>
    and \<^verbatim>\<open>"failed to set sweep config: %v"\<close>;
  \<^item> \<open>ErrFrequencies e\<close>: \<^verbatim>\<open>"failed to get frequencies: %v"\<close>;
  \<^item> \<open>ErrS11 e\<close>: \<^verbatim>\<open>"failed to get S11 data: %v"\<close>;
  \<^item> \<open>ErrNoData\<close>: \<^verbatim>\<open>"no valid measurement data received"\<close>;
  \<^item> \<open>ErrUnrecognizedDevice r\<close>: \<^verbatim>\<open>"unrecognized response: %q"\<close>;
  \<^item> \<open>ErrNoPorts\<close>: \<^verbatim>\<open>"no serial ports found"\<close>;
  \<^item> \<open>ErrListFailed e\<close>: \<^verbatim>\<open>"failed to list serial ports: %v"\<close>;
  \<^item> \<open>ErrNoDeviceFound\<close>: \<^verbatim>\<open>"no NanoVNA devices found on any serial port"\<close>.
\<close>

datatype violation = StartBelowMin | StopAboveMax | PointsAboveMax

datatype error =
    ErrNotConnected
  | ErrPort string
  | ErrWriteFailed error
  | ErrOutOfRange violation
  | ErrCommandFailed error
  | ErrFrequencies error
  | ErrS11 error
  | ErrNoData
  | ErrUnrecognizedDevice string
  | ErrNoPorts
  | ErrListFailed error
  | ErrNoDeviceFound

section \<open>The serial port\<close>

text \<open>
  \<^verbatim>\<open>SerialPort\<close> is an interface (\<^verbatim>\<open>Read\<close>, \<^verbatim>\<open>Write\<close>, \<^verbatim>\<open>Close\<close>) whose
  implementation is outside the repository. A port is modelled by what its calls return:
  \<open>rd p n\<close> is the outcome of the \<open>n\<close>-th call of \<^verbatim>\<open>Read\<close> and \<open>wr p n\<close> the
  error, if any, of the \<open>n\<close>-th call of \<^verbatim>\<open>Write\<close>; \<open>rpos\<close> and \<open>wpos\<close> count the
  calls made so far and \<open>written\<close> records the bytes handed to \<^verbatim>\<open>Write\<close>. A read
  returns either \<open>ReadOk chunk\<close> (a nil error and the bytes \<^verbatim>\<open>buf[:n]\<close>, possibly
  none) or \<open>ReadErr msg\<close> (a non-nil error with text \<open>msg\<close>; the source ignores the
  byte count in that case). The pauses (\<^verbatim>\<open>time.Sleep\<close>) are not modelled.
\<close>

datatype read_result = ReadOk string | ReadErr string

record SerialPort =
  rd :: "nat \<Rightarrow> read_result"
  wr :: "nat \<Rightarrow> string option"
  rpos :: nat
  wpos :: nat
  written :: "string list"
  closeErr :: "string option"

definition portRead :: "SerialPort \<Rightarrow> read_result \<times> SerialPort" where
  "portRead p = (rd p (rpos p), p\<lparr>rpos := Suc (rpos p)\<rparr>)"

definition portWrite :: "string \<Rightarrow> SerialPort \<Rightarrow> string option \<times> SerialPort" where
  "portWrite bs p = (wr p (wpos p), p\<lparr>wpos := Suc (wpos p), written := written p @ [bs]\<rparr>)"

section \<open>Hardware variants and the capability registry\<close>

text \<open>
  The embedding follows \<^verbatim>\<open>nanovna.go\<close>. The Go type \<^verbatim>\<open>HardwareVariant\<close> is an
  integer type with nine declared constants; it is modelled as the closed enumeration of
  those constants. The \<^verbatim>\<open>float64\<close> fields of \<^verbatim>\<open>FrequencyRange\<close> are modelled as
  reals: every bound the registry stores is an integer below \<open>2 ^ 53\<close>, which
  \<^verbatim>\<open>float64\<close> represents exactly.
\<close>

datatype HardwareVariant =
    VariantUnknown
  | VariantV1
  | VariantVH
  | VariantV2
  | VariantV2Plus
  | VariantV2Plus4
  | VariantSAA2
  | VariantTinysa
  | VariantLiteVNA

fun String :: "HardwareVariant \<Rightarrow> string" where
  "String VariantV1 = ''NanoVNA v1''"
| "String VariantVH = ''NanoVNA-H''"
| "String VariantV2 = ''NanoVNA v2''"
| "String VariantV2Plus = ''NanoVNA v2 Plus''"
| "String VariantV2Plus4 = ''NanoVNA v2 Plus4''"
| "String VariantSAA2 = ''SAA2''"
| "String VariantTinysa = ''TinySA''"
| "String VariantLiteVNA = ''LiteVNA''"
| "String VariantUnknown = ''Unknown''"

record FrequencyRange =
  MinHz :: real
  MaxHz :: real

record CommandSet =
  SweepCommand :: string
  FreqCommand :: string
  DataCommand :: string
  InfoCommand :: string
  VersionCommand :: string
  CalibrationSave :: string
  CalibrationLoad :: string
  PromptPattern :: string

record HardwareCapabilities =
  HasS21 :: bool
  HasTimeDomain :: bool
  HasCalibration :: bool
  HasMultiplePorts :: bool
  HasGenerator :: bool
  HasSpectrumMode :: bool

record HardwareInfo =
  Variant :: HardwareVariant
  FrequencyRange :: FrequencyRange
  MaxSweepPoints :: int
  SupportedPorts :: "string list"
  CommandSet :: CommandSet
  Capabilities :: HardwareCapabilities

text \<open>
  \<^verbatim>\<open>getHardwareInfo\<close> is a \<^verbatim>\<open>switch\<close> with six cases and a \<^verbatim>\<open>default\<close>; the last
  equation below is that default branch, which the source reaches for
  \<^verbatim>\<open>VariantUnknown\<close>, \<^verbatim>\<open>VariantSAA2\<close> and \<^verbatim>\<open>VariantLiteVNA\<close>.
\<close>

fun getHardwareInfo :: "HardwareVariant \<Rightarrow> HardwareInfo" where
  "getHardwareInfo VariantV1 =
     \<lparr>Variant = VariantV1,
      FrequencyRange = \<lparr>MinHz = 50000, MaxHz = 900000000\<rparr>,
      MaxSweepPoints = 101,
      SupportedPorts = [''S11'', ''S21''],
      CommandSet = \<lparr>SweepCommand = ''sweep %d %d %d'', FreqCommand = ''frequencies'',
        DataCommand = ''data %d'', InfoCommand = ''info'', VersionCommand = ''version'',
        CalibrationSave = ''save %d'', CalibrationLoad = ''recall %d'',
        PromptPattern = ''ch>''\<rparr>,
      Capabilities = \<lparr>HasS21 = True, HasTimeDomain = False, HasCalibration = True,
        HasMultiplePorts = False, HasGenerator = False, HasSpectrumMode = False\<rparr>\<rparr>"
| "getHardwareInfo VariantVH =
     \<lparr>Variant = VariantVH,
      FrequencyRange = \<lparr>MinHz = 50000, MaxHz = 1500000000\<rparr>,
      MaxSweepPoints = 201,
      SupportedPorts = [''S11'', ''S21''],
      CommandSet = \<lparr>SweepCommand = ''sweep %d %d %d'', FreqCommand = ''frequencies'',
        DataCommand = ''data %d'', InfoCommand = ''info'', VersionCommand = ''version'',
        CalibrationSave = ''save %d'', CalibrationLoad = ''recall %d'',
        PromptPattern = ''ch>''\<rparr>,
      Capabilities = \<lparr>HasS21 = True, HasTimeDomain = True, HasCalibration = True,
        HasMultiplePorts = False, HasGenerator = True, HasSpectrumMode = False\<rparr>\<rparr>"
| "getHardwareInfo VariantV2 =
     \<lparr>Variant = VariantV2,
      FrequencyRange = \<lparr>MinHz = 50000, MaxHz = 3000000000\<rparr>,
      MaxSweepPoints = 4000,
      SupportedPorts = [''S11'', ''S21''],
      CommandSet = \<lparr>SweepCommand = ''sweep %d %d %d'', FreqCommand = ''freq'',
        DataCommand = ''data %d'', InfoCommand = ''info'', VersionCommand = ''version'',
        CalibrationSave = ''save %d'', CalibrationLoad = ''recall %d'',
        PromptPattern = ''2>''\<rparr>,
      Capabilities = \<lparr>HasS21 = True, HasTimeDomain = True, HasCalibration = True,
        HasMultiplePorts = False, HasGenerator = True, HasSpectrumMode = True\<rparr>\<rparr>"
| "getHardwareInfo VariantV2Plus =
     \<lparr>Variant = VariantV2Plus,
      FrequencyRange = \<lparr>MinHz = 50000, MaxHz = 6000000000\<rparr>,
      MaxSweepPoints = 4000,
      SupportedPorts = [''S11'', ''S21''],
      CommandSet = \<lparr>SweepCommand = ''sweep %d %d %d'', FreqCommand = ''freq'',
        DataCommand = ''data %d'', InfoCommand = ''info'', VersionCommand = ''version'',
        CalibrationSave = ''save %d'', CalibrationLoad = ''recall %d'',
        PromptPattern = ''2>''\<rparr>,
      Capabilities = \<lparr>HasS21 = True, HasTimeDomain = True, HasCalibration = True,
        HasMultiplePorts = False, HasGenerator = True, HasSpectrumMode = True\<rparr>\<rparr>"
| "getHardwareInfo VariantV2Plus4 =
     \<lparr>Variant = VariantV2Plus4,
      FrequencyRange = \<lparr>MinHz = 50000, MaxHz = 6000000000\<rparr>,
      MaxSweepPoints = 4000,
      SupportedPorts = [''S11'', ''S21'', ''S12'', ''S22''],
      CommandSet = \<lparr>SweepCommand = ''sweep %d %d %d'', FreqCommand = ''freq'',
        DataCommand = ''data %d'', InfoCommand = ''info'', VersionCommand = ''version'',
        CalibrationSave = ''save %d'', CalibrationLoad = ''recall %d'',
        PromptPattern = ''2>''\<rparr>,
      Capabilities = \<lparr>HasS21 = True, HasTimeDomain = True, HasCalibration = True,
        HasMultiplePorts = True, HasGenerator = True, HasSpectrumMode = True\<rparr>\<rparr>"
| "getHardwareInfo VariantTinysa =
     \<lparr>Variant = VariantTinysa,
      FrequencyRange = \<lparr>MinHz = 100000, MaxHz = 960000000\<rparr>,
      MaxSweepPoints = 500,
      SupportedPorts = [''S11''],
      CommandSet = \<lparr>SweepCommand = ''sweep %d %d %d'', FreqCommand = ''frequencies'',
        DataCommand = ''data %d'', InfoCommand = ''info'', VersionCommand = ''version'',
        CalibrationSave = ''save %d'', CalibrationLoad = ''recall %d'',
        PromptPattern = ''ch>''\<rparr>,
      Capabilities = \<lparr>HasS21 = False, HasTimeDomain = False, HasCalibration = True,
        HasMultiplePorts = False, HasGenerator = True, HasSpectrumMode = True\<rparr>\<rparr>"
| "getHardwareInfo _ =
     \<lparr>Variant = VariantUnknown,
      FrequencyRange = \<lparr>MinHz = 50000, MaxHz = 900000000\<rparr>,
      MaxSweepPoints = 101,
      SupportedPorts = [''S11''],
      CommandSet = \<lparr>SweepCommand = ''sweep %d %d %d'', FreqCommand = ''frequencies'',
        DataCommand = ''data %d'', InfoCommand = ''info'', VersionCommand = ''version'',
        CalibrationSave = ''save %d'', CalibrationLoad = ''recall %d'',
        PromptPattern = ''ch>''\<rparr>,
      Capabilities = \<lparr>HasS21 = False, HasTimeDomain = False, HasCalibration = True,
        HasMultiplePorts = False, HasGenerator = False, HasSpectrumMode = False\<rparr>\<rparr>"

section \<open>The device\<close>

datatype Parity = ParityNone | ParityOdd | ParityEven | ParityMark | ParitySpace

datatype StopBits = Stop1 | Stop1Half | Stop2

text \<open>\<open>ReadTimeout\<close> is a \<^verbatim>\<open>time.Duration\<close>, a count of nanoseconds.\<close>

record PortConfig =
  Name :: string
  Baud :: int
  ReadTimeout :: int
  Size :: nat
  Parity :: Parity
  StopBits :: StopBits

text \<open>
  \<open>portHandle\<close> is \<open>None\<close> when the interface value is nil. The device is the only
  holder of its port in the operations below, so the port's state is kept inside the
  device record and every operation returns the device it leaves behind.
\<close>

record Device =
  Port :: string
  portHandle :: "SerialPort option"
  config :: "PortConfig option"
  version :: string
  variant :: HardwareVariant
  hardwareInfo :: HardwareInfo

definition IsPortSupported :: "Device \<Rightarrow> string \<Rightarrow> bool" where
  "IsPortSupported d port = (port \<in> set (SupportedPorts (hardwareInfo d)))"

section \<open>The command channel\<close>

definition maxAttempts :: nat where
  "maxAttempts = 10"

text \<open>
  The read loop of \<^verbatim>\<open>sendCommand\<close>: \<open>attempts\<close> is the loop counter and
  \<open>response\<close> the text accumulated so far. The loop is left by \<^verbatim>\<open>break\<close> on a
  time-out after some data, by \<^verbatim>\<open>return\<close> on any other read error, by \<^verbatim>\<open>break\<close>
  when the chunk just read contains \<^verbatim>\<open>"ch>"\<close>, and when the counter reaches
  \<open>maxAttempts\<close>.
\<close>

function readLoop :: "nat \<Rightarrow> string \<Rightarrow> SerialPort \<Rightarrow> (string \<times> error option) \<times> SerialPort" where
  "readLoop attempts response p =
     (if attempts < maxAttempts then
        (case portRead p of
           (ReadErr msg, p') \<Rightarrow>
             if Contains msg ''timeout'' \<and> 0 < length response then ((response, None), p')
             else ((response, Some (ErrPort msg)), p')
         | (ReadOk chunk, p') \<Rightarrow>
             if 0 < length chunk then
               (if Contains chunk ''ch>'' then ((response @ chunk, None), p')
                else readLoop (attempts + 1) (response @ chunk) p')
             else readLoop (attempts + 1) response p')
      else ((response, None), p))"
  by pat_completeness auto
termination
  by (relation "measure (\<lambda>(attempts, response, p). maxAttempts - attempts)") auto

declare readLoop.simps [simp del]


definition sendCommand :: "Device \<Rightarrow> string \<Rightarrow> (string \<times> error option) \<times> Device" where
  "sendCommand d cmd =
     (case portHandle d of
        None \<Rightarrow> (('''', Some ErrNotConnected), d)
      | Some p0 \<Rightarrow>
          (case portRead p0 of
             (drained, p1) \<Rightarrow>
               (case portWrite (cmd @ [CHR 0x0D]) p1 of
                  (Some msg, p2) \<Rightarrow>
                    (('''', Some (ErrWriteFailed (ErrPort msg))), d\<lparr>portHandle := Some p2\<rparr>)
                | (None, p2) \<Rightarrow>
                    (case readLoop 0 [] p2 of
                       (res, p3) \<Rightarrow> (res, d\<lparr>portHandle := Some p3\<rparr>)))))"

section \<open>Sweep configuration\<close>

text \<open>
  \<^verbatim>\<open>SetSweepConfig\<close>. The arguments are Go \<^verbatim>\<open>int\<close>s, modelled as integers; the
  conversion \<^verbatim>\<open>float64(startHz)\<close> is the embedding of the integers into the reals.
  For the bounds of the registry this loses nothing: the conversion is monotone and exact
  on integers below \<open>2 ^ 53\<close>, so it never moves an argument across such a bound. The
  three range checks come first, in the order of the source. After them the primary
  command is sent and, only if it fails, up to three further commands, each sent only if
  the one before it failed. The \<^verbatim>\<open>switch\<close> on the variant selects the texts of the
  further commands.
\<close>

definition SetSweepConfig :: "Device \<Rightarrow> int \<Rightarrow> int \<Rightarrow> int \<Rightarrow> error option \<times> Device" where
  "SetSweepConfig d startHz stopHz points =
     (if real_of_int startHz < MinHz (FrequencyRange (hardwareInfo d)) then
        (Some (ErrOutOfRange StartBelowMin), d)
      else if real_of_int stopHz > MaxHz (FrequencyRange (hardwareInfo d)) then
        (Some (ErrOutOfRange StopAboveMax), d)
      else if points > MaxSweepPoints (hardwareInfo d) then
        (Some (ErrOutOfRange PointsAboveMax), d)
      else
        (let cmd = Sprintf (SweepCommand (CommandSet (hardwareInfo d))) [startHz, stopHz, points]
         in if variant d = VariantV2 \<or> variant d = VariantV2Plus \<or> variant d = VariantV2Plus4 then
              (case sendCommand d cmd of
                 ((r1, None), d1) \<Rightarrow> (None, d1)
               | ((r1, Some err), d1) \<Rightarrow>
                   (case sendCommand d1 (Sprintf ''sweep start %d'' [startHz]) of
                      ((r2, None), d2) \<Rightarrow> (None, d2)
                    | ((r2, Some err2), d2) \<Rightarrow>
                        (case sendCommand d2 (Sprintf ''sweep stop %d'' [stopHz]) of
                           ((r3, None), d3) \<Rightarrow> (None, d3)
                         | ((r3, Some err3), d3) \<Rightarrow>
                             (case sendCommand d3 (Sprintf ''sweep points %d'' [points]) of
                                ((r4, None), d4) \<Rightarrow> (None, d4)
                              | ((r4, Some err4), d4) \<Rightarrow> (Some (ErrCommandFailed err), d4)))))
            else
              (case sendCommand d cmd of
                 ((r1, None), d1) \<Rightarrow> (None, d1)
               | ((r1, Some err), d1) \<Rightarrow>
                   (case sendCommand d1 (Sprintf ''start %d'' [startHz]) of
                      ((r2, None), d2) \<Rightarrow> (None, d2)
                    | ((r2, Some err2), d2) \<Rightarrow>
                        (case sendCommand d2 (Sprintf ''stop %d'' [stopHz]) of
                           ((r3, None), d3) \<Rightarrow> (None, d3)
                         | ((r3, Some err3), d3) \<Rightarrow>
                             (case sendCommand d3 (Sprintf ''points %d'' [points]) of
                                ((r4, None), d4) \<Rightarrow> (None, d4)
                              | ((r4, Some err4), d4) \<Rightarrow> (Some (ErrCommandFailed err), d4)))))))"

section \<open>Running a sweep\<close>

text \<open>
  \<^verbatim>\<open>float64\<close> samples are modelled as reals and \<^verbatim>\<open>complex128\<close> as \<open>complex\<close>:
  \<^verbatim>\<open>RunSweep\<close> stores the parsed numbers and computes nothing with them.
\<close>

record SweepData =
  Frequencies :: "real list"
  S11 :: "complex list"
  S21 :: "complex list"

text \<open>The loop over the lines of the frequency response (step 1).\<close>

fun parseFrequencies ::
  "GoLibrary \<Rightarrow> string \<Rightarrow> string \<Rightarrow> string list \<Rightarrow> real list \<Rightarrow> real list" where
  "parseFrequencies lib freqCmd prompt [] freqs = freqs"
| "parseFrequencies lib freqCmd prompt (l # ls) freqs =
     (let line = TrimSpace lib l in
      if line = [] \<or> line = freqCmd \<or> Contains line prompt \<or> Contains line ''?'' then
        parseFrequencies lib freqCmd prompt ls freqs
      else
        (case ParseFloat lib line of
           Some freq \<Rightarrow> parseFrequencies lib freqCmd prompt ls (freqs @ [freq])
         | None \<Rightarrow> parseFrequencies lib freqCmd prompt ls freqs))"

text \<open>
  The loop over the lines of a data response. The source has this loop twice, with the
  same body, for S11 (step 2) and for S21 (step 3).
\<close>

fun parseSamples ::
  "GoLibrary \<Rightarrow> string \<Rightarrow> string list \<Rightarrow> complex list \<Rightarrow> complex list" where
  "parseSamples lib prompt [] samples = samples"
| "parseSamples lib prompt (l # ls) samples =
     (let line = TrimSpace lib l in
      if line = [] \<or> HasPrefix line ''data'' \<or> Contains line prompt \<or> Contains line ''?'' then
        parseSamples lib prompt ls samples
      else
        (case Fields lib line of
           p0 # p1 # rest \<Rightarrow>
             (case (ParseFloat lib p0, ParseFloat lib p1) of
                (Some re, Some im) \<Rightarrow> parseSamples lib prompt ls (samples @ [Complex re im])
              | _ \<Rightarrow> parseSamples lib prompt ls samples)
         | _ \<Rightarrow> parseSamples lib prompt ls samples))"

text \<open>\<^verbatim>\<open>for len(data.S21) < n { data.S21 = append(data.S21, complex(0, 0)) }\<close>\<close>

function padZeros :: "complex list \<Rightarrow> nat \<Rightarrow> complex list" where
  "padZeros s21 n = (if length s21 < n then padZeros (s21 @ [Complex 0 0]) n else s21)"
  by pat_completeness auto
termination
  by (relation "measure (\<lambda>(s21, n). n - length s21)") auto

declare padZeros.simps [simp del]

definition RunSweep :: "GoLibrary \<Rightarrow> Device \<Rightarrow> (error + SweepData) \<times> Device" where
  "RunSweep lib d =
     (let freqCmd = FreqCommand (CommandSet (hardwareInfo d)) in
      case sendCommand d freqCmd of
        ((freqResp, Some err), d1) \<Rightarrow> (Inl (ErrFrequencies err), d1)
      | ((freqResp, None), d1) \<Rightarrow>
          (let freqs = parseFrequencies lib freqCmd
                         (PromptPattern (CommandSet (hardwareInfo d1)))
                         (Split freqResp (CHR 0x0A)) [];
               s11Cmd = Sprintf (DataCommand (CommandSet (hardwareInfo d1))) [0]
           in case sendCommand d1 s11Cmd of
                ((s11Resp, Some err), d2) \<Rightarrow> (Inl (ErrS11 err), d2)
              | ((s11Resp, None), d2) \<Rightarrow>
                  (let s11 = parseSamples lib
                               (PromptPattern (CommandSet (hardwareInfo d2)))
                               (Split s11Resp (CHR 0x0A)) []
                   in case (if HasS21 (Capabilities (hardwareInfo d2)) \<and> IsPortSupported d2 ''S21'' then
                              (case sendCommand d2 (Sprintf (DataCommand (CommandSet (hardwareInfo d2))) [1]) of
                                 ((s21Resp, Some err), d3) \<Rightarrow> (map (\<lambda>x. Complex 0 0) s11, d3)
                               | ((s21Resp, None), d3) \<Rightarrow>
                                   (parseSamples lib
                                      (PromptPattern (CommandSet (hardwareInfo d3)))
                                      (Split s21Resp (CHR 0x0A)) [], d3))
                            else ([], d2)) of
                        (s21, d3) \<Rightarrow>
                          (let s21p = padZeros s21 (length s11) in
                           if length freqs = 0 \<or> length s11 = 0 then (Inl ErrNoData, d3)
                           else
                             (let minLen = (if length s11 < length freqs then length s11
                                            else length freqs)
                              in (Inr \<lparr>Frequencies = take minLen freqs,
                                       S11 = take minLen s11,
                                       S21 = (if minLen \<le> length s21p then take minLen s21p
                                              else padZeros s21p minLen)\<rparr>, d3))))))"

section \<open>Device information\<close>

record DeviceInfo =
  Model :: string
  Firmware :: string
  SerialNum :: string

text \<open>
  The inner loop of \<^verbatim>\<open>GetInfo\<close> over the fields of a line: the first field that
  starts with \<^verbatim>\<open>"v"\<close> and is longer than one byte.
\<close>

fun firstVersionField :: "string list \<Rightarrow> string option" where
  "firstVersionField [] = None"
| "firstVersionField (p # ps) =
     (if HasPrefix p ''v'' \<and> 1 < length p then Some p else firstVersionField ps)"

fun infoLines :: "GoLibrary \<Rightarrow> Device \<Rightarrow> string \<Rightarrow> string list \<Rightarrow> DeviceInfo \<Rightarrow> DeviceInfo" where
  "infoLines lib d infoCmd [] info = info"
| "infoLines lib d infoCmd (l # ls) info =
     (let line = TrimSpace lib l in
      if line = [] \<or> line = infoCmd
         \<or> Contains line (PromptPattern (CommandSet (hardwareInfo d))) then
        infoLines lib d infoCmd ls info
      else if variant d = VariantV2 \<or> variant d = VariantV2Plus
              \<or> variant d = VariantV2Plus4 \<or> variant d = VariantSAA2 then
        (let info1 = (if Contains (ToLower lib line) ''nanovna'' \<or> Contains (ToLower lib line) ''saa2''
                      then info\<lparr>Model := line\<rparr> else info);
             info2 = (if Contains (ToLower lib line) ''firmware'' \<or> Contains (ToLower lib line) ''version''
                      then (case Split line (CHR '':'') of
                              p0 # p1 # rest \<Rightarrow> info1\<lparr>Firmware := TrimSpace lib p1\<rparr>
                            | _ \<Rightarrow> info1)
                      else info1)
         in infoLines lib d infoCmd ls info2)
      else
        (let info1 = (if Model info = String (variant d) then info\<lparr>Model := line\<rparr> else info);
             info2 = (if HasPrefix (ToLower lib line) ''serial''
                      then info1\<lparr>SerialNum := TrimSpace lib (TrimPrefix line ''Serial:'')\<rparr>
                      else info1);
             info3 = (if Contains line ''v'' \<and> Firmware info2 = []
                      then (case firstVersionField (Fields lib line) of
                              Some p \<Rightarrow> info2\<lparr>Firmware := p\<rparr>
                            | None \<Rightarrow> info2)
                      else info2)
         in infoLines lib d infoCmd ls info3))"

definition GetInfo :: "GoLibrary \<Rightarrow> Device \<Rightarrow> (error + DeviceInfo) \<times> Device" where
  "GetInfo lib d =
     (let infoCmd = InfoCommand (CommandSet (hardwareInfo d)) in
      case sendCommand d infoCmd of
        ((resp, Some err), d1) \<Rightarrow> (Inl err, d1)
      | ((resp, None), d1) \<Rightarrow>
          (let info = infoLines lib d1 infoCmd (Split resp (CHR 0x0A))
                        \<lparr>Model = String (variant d1), Firmware = [], SerialNum = []\<rparr>
           in (Inr (if Model info = [] \<or> Model info = String (variant d1)
                    then info\<lparr>Model := String (variant d1) @ '' (detected)''\<rparr>
                    else info), d1)))"

section \<open>Variant detection\<close>

text \<open>
  \<^verbatim>\<open>DetectVersion\<close> in three parts. \<open>probe\<close> is the beginning of the function, up to
  \<^verbatim>\<open>response := string(buf[:n])\<close>: the nil check, the draining read, the write of a
  carriage return and one raw read. \<open>classify\<close> is the chain of \<^verbatim>\<open>if\<close>s that
  assigns \<^verbatim>\<open>d.version\<close> and \<^verbatim>\<open>d.variant\<close> from the probe response and the info
  text. \<open>DetectVersion\<close> puts them together as the source does: the info text is the
  first result of \<^verbatim>\<open>sendCommand("info")\<close>, whose error is discarded.
\<close>

definition probe :: "Device \<Rightarrow> (error + string) \<times> Device" where
  "probe d =
     (case portHandle d of
        None \<Rightarrow> (Inl ErrNotConnected, d)
      | Some p0 \<Rightarrow>
          (case portRead p0 of
             (drained, p1) \<Rightarrow>
               (case portWrite [CHR 0x0D] p1 of
                  (Some msg, p2) \<Rightarrow> (Inl (ErrPort msg), d\<lparr>portHandle := Some p2\<rparr>)
                | (None, p2) \<Rightarrow>
                    (case portRead p2 of
                       (ReadErr msg, p3) \<Rightarrow> (Inl (ErrPort msg), d\<lparr>portHandle := Some p3\<rparr>)
                     | (ReadOk response, p3) \<Rightarrow> (Inr response, d\<lparr>portHandle := Some p3\<rparr>)))))"

definition classify :: "GoLibrary \<Rightarrow> string \<Rightarrow> string \<Rightarrow> string \<times> HardwareVariant" where
  "classify lib response info =
     (if HasPrefix response ''ch> '' then
        (''v1'',
         if Contains (ToLower lib info) ''tinysa'' then VariantTinysa
         else if Contains (ToLower lib info) ''litevna'' then VariantLiteVNA
         else VariantV1)
      else if HasPrefix response ([CHR 0x0D, CHR 0x0A] @ ''ch> '')
              \<or> HasPrefix response ([CHR 0x0D, CHR 0x0A] @ ''?'' @ [CHR 0x0D, CHR 0x0A] @ ''ch> '') then
        (''vh'',
         if Contains (ToLower lib info) ''nanovna v1'' then VariantV1 else VariantVH)
      else if HasPrefix response ''2'' \<or> Contains response ''2>'' then
        (''v2'',
         if Contains (ToLower lib info) ''plus4'' then VariantV2Plus4
         else if Contains (ToLower lib info) ''plus'' then VariantV2Plus
         else if Contains (ToLower lib info) ''saa2'' then VariantSAA2
         else VariantV2)
      else (''unknown'', VariantUnknown))"

text \<open>
  The result is the pair the Go function returns: the version label and the error
  (\<open>None\<close> for nil).
\<close>

definition DetectVersion :: "GoLibrary \<Rightarrow> Device \<Rightarrow> (string \<times> error option) \<times> Device" where
  "DetectVersion lib d =
     (case probe d of
        (Inl err, d1) \<Rightarrow> (('''', Some err), d1)
      | (Inr response, d1) \<Rightarrow>
          (case sendCommand d1 ''info'' of
             ((info, ignored), d2) \<Rightarrow>
               (case classify lib response info of
                  (ver, var) \<Rightarrow>
                    (let d3 = d2\<lparr>version := ver, variant := var,
                                 hardwareInfo := getHardwareInfo var\<rparr>
                     in if variant d3 = VariantUnknown
                        then ((''unknown'', Some (ErrUnrecognizedDevice response)), d3)
                        else ((version d3, None), d3)))))"

section \<open>Opening and closing\<close>

text \<open>
  \<^verbatim>\<open>Open(port, custom...)\<close>. The variadic argument is the list \<open>custom\<close>, a nil
  interface value being \<open>None\<close>. \<^verbatim>\<open>serial.OpenPort\<close> belongs to an external package;
  its outcome for a port name is the parameter \<open>OpenPort\<close>. \<open>newDevice\<close> is the
  composite literal \<^verbatim>\<open>&Device{Port: port}\<close>, every other field at its zero value.
\<close>

definition zeroHardwareInfo :: HardwareInfo where
  "zeroHardwareInfo =
     \<lparr>Variant = VariantUnknown,
      FrequencyRange = \<lparr>MinHz = 0, MaxHz = 0\<rparr>,
      MaxSweepPoints = 0,
      SupportedPorts = [],
      CommandSet = \<lparr>SweepCommand = [], FreqCommand = [], DataCommand = [], InfoCommand = [],
        VersionCommand = [], CalibrationSave = [], CalibrationLoad = [], PromptPattern = []\<rparr>,
      Capabilities = \<lparr>HasS21 = False, HasTimeDomain = False, HasCalibration = False,
        HasMultiplePorts = False, HasGenerator = False, HasSpectrumMode = False\<rparr>\<rparr>"

definition newDevice :: "string \<Rightarrow> Device" where
  "newDevice port =
     \<lparr>Port = port, portHandle = None, config = None, version = [],
      variant = VariantUnknown, hardwareInfo = zeroHardwareInfo\<rparr>"

definition Open ::
  "string \<Rightarrow> SerialPort option list \<Rightarrow> (string \<Rightarrow> error + SerialPort) \<Rightarrow> error + Device" where
  "Open port custom OpenPort =
     (case (case custom of
              Some sp # rest \<Rightarrow> Inr ((newDevice port)\<lparr>portHandle := Some sp\<rparr>)
            | _ \<Rightarrow>
                (case OpenPort port of
                   Inl err \<Rightarrow> Inl err
                 | Inr s \<Rightarrow>
                     Inr ((newDevice port)
                           \<lparr>config := Some \<lparr>Name = port, Baud = 9600,
                                             ReadTimeout = 5 * 1000000000, Size = 8,
                                             Parity = ParityNone, StopBits = Stop1\<rparr>,
                            portHandle := Some s\<rparr>))) of
        Inl err \<Rightarrow> Inl err
      | Inr device \<Rightarrow>
          Inr (device\<lparr>variant := VariantUnknown,
                      hardwareInfo := getHardwareInfo VariantUnknown\<rparr>))"

fun versionLabel :: "HardwareVariant \<Rightarrow> string" where
  "versionLabel VariantV1 = ''v1''"
| "versionLabel VariantVH = ''vh''"
| "versionLabel VariantV2 = ''v2''"
| "versionLabel VariantV2Plus = ''v2''"
| "versionLabel VariantV2Plus4 = ''v2''"
| "versionLabel VariantSAA2 = ''v2''"
| "versionLabel VariantTinysa = ''tinysa''"
| "versionLabel VariantLiteVNA = ''litevna''"
| "versionLabel VariantUnknown = ''unknown''"

definition OpenWithVariant ::
  "string \<Rightarrow> HardwareVariant \<Rightarrow> (string \<Rightarrow> error + SerialPort) \<Rightarrow> error + Device" where
  "OpenWithVariant port v OpenPort =
     (case Open port [] OpenPort of
        Inl err \<Rightarrow> Inl err
      | Inr device \<Rightarrow>
          Inr (device\<lparr>variant := v, hardwareInfo := getHardwareInfo v,
                      version := versionLabel v\<rparr>))"

definition Close :: "Device \<Rightarrow> error option \<times> Device" where
  "Close d =
     (case portHandle d of
        Some p \<Rightarrow> (map_option ErrPort (closeErr p), d\<lparr>portHandle := None\<rparr>)
      | None \<Rightarrow> (None, d))"

definition SetPortHandle :: "Device \<Rightarrow> SerialPort option \<Rightarrow> Device" where
  "SetPortHandle d sp = d\<lparr>portHandle := sp\<rparr>"

text \<open>
  The calibration operations are stubs that return nil and touch nothing;
  \<^verbatim>\<open>CalibrationData\<close> is a struct with no fields. The remaining exported methods
  (\<^verbatim>\<open>GetPortHandle\<close>, \<^verbatim>\<open>GetHardwareInfo\<close>, \<^verbatim>\<open>GetVersion\<close> and the other
  getters) return a field of the device and assign nothing.
\<close>

definition GetCalibration :: "Device \<Rightarrow> (unit \<times> error option) \<times> Device" where
  "GetCalibration d = (((), None), d)"

definition SetCalibration :: "Device \<Rightarrow> error option \<times> Device" where
  "SetCalibration d = (None, d)"

definition SaveCalibration :: "Device \<Rightarrow> int \<Rightarrow> error option \<times> Device" where
  "SaveCalibration d slot = (None, d)"

definition LoadCalibration :: "Device \<Rightarrow> int \<Rightarrow> error option \<times> Device" where
  "LoadCalibration d slot = (None, d)"

section \<open>Automatic detection\<close>

text \<open>
  \<^verbatim>\<open>ListDevices\<close> tries \<^verbatim>\<open>os.Open\<close> on the paths of COM1 to COM20; \<open>osOpen\<close> says
  for which paths that call succeeds. \<^verbatim>\<open>AutoDetect\<close> opens each listed port in turn and
  returns the first device on which \<^verbatim>\<open>DetectVersion\<close> succeeds; a device on which it
  fails is closed and dropped.
\<close>

definition ListDevices :: "(string \<Rightarrow> bool) \<Rightarrow> error + string list" where
  "ListDevices osOpen =
     (let ports = filter (\<lambda>portName. osOpen (''//./'' @ portName))
                    (map (\<lambda>i. ''COM'' @ Itoa (int i)) [1..<21])
      in if length ports = 0 then Inl ErrNoPorts else Inr ports)"

fun autoDetectPorts :: "GoLibrary \<Rightarrow> (string \<Rightarrow> error + SerialPort) \<Rightarrow> string list \<Rightarrow> error + Device" where
  "autoDetectPorts lib OpenPort [] = Inl ErrNoDeviceFound"
| "autoDetectPorts lib OpenPort (port # ports) =
     (case Open port [] OpenPort of
        Inl err \<Rightarrow> autoDetectPorts lib OpenPort ports
      | Inr device \<Rightarrow>
          (case DetectVersion lib device of
             ((ver, Some err), device1) \<Rightarrow>
               (case Close device1 of (cerr, device2) \<Rightarrow> autoDetectPorts lib OpenPort ports)
           | ((ver, None), device1) \<Rightarrow> Inr device1))"

definition AutoDetect ::
  "GoLibrary \<Rightarrow> (string \<Rightarrow> bool) \<Rightarrow> (string \<Rightarrow> error + SerialPort) \<Rightarrow> error + Device" where
  "AutoDetect lib osOpen OpenPort =
     (case ListDevices osOpen of
        Inl err \<Rightarrow> Inl (ErrListFailed err)
      | Inr ports \<Rightarrow> autoDetectPorts lib OpenPort ports)"

section \<open>Example ports and devices\<close>

text \<open>
  Concrete inputs for the evaluations below. \<open>scriptedPort rs\<close> answers the successive
  calls of \<^verbatim>\<open>Read\<close> with the entries of \<open>rs\<close> and then, like the mock port of the
  repository's tests, with a \<^verbatim>\<open>"timeout"\<close> error; every \<^verbatim>\<open>Write\<close> succeeds.
  \<open>deadPort\<close> fails every call. \<open>deviceOn v p\<close> is a device of variant \<open>v\<close> on
  port \<open>p\<close>, as \<^verbatim>\<open>OpenWithVariant\<close> leaves it.
\<close>

definition scriptedPort :: "read_result list \<Rightarrow> SerialPort" where
  "scriptedPort rs =
     \<lparr>rd = (\<lambda>n. if n < length rs then rs ! n else ReadErr ''timeout''),
      wr = (\<lambda>n. None), rpos = 0, wpos = 0, written = [], closeErr = None\<rparr>"

definition deadPort :: SerialPort where
  "deadPort =
     \<lparr>rd = (\<lambda>n. ReadErr ''input/output error''), wr = (\<lambda>n. Some ''input/output error''),
      rpos = 0, wpos = 0, written = [], closeErr = None\<rparr>"

text \<open>
  \<open>busyPort k\<close> rejects its first \<open>k\<close> writes and accepts the later ones; every read
  returns a prompt.
\<close>

definition busyPort :: "nat \<Rightarrow> SerialPort" where
  "busyPort k =
     \<lparr>rd = (\<lambda>n. ReadOk ''ch> ''), wr = (\<lambda>n. if n < k then Some ''busy'' else None),
      rpos = 0, wpos = 0, written = [], closeErr = None\<rparr>"

text \<open>
  \<open>silentAfter chunk\<close> has nothing buffered, answers the first read after a command
  with \<open>chunk\<close> and then stays silent: every later read returns no bytes and no error.
\<close>

definition silentAfter :: "string \<Rightarrow> SerialPort" where
  "silentAfter chunk =
     \<lparr>rd = (\<lambda>n. if n = Suc 0 then ReadOk chunk else ReadOk []), wr = (\<lambda>n. None),
      rpos = 0, wpos = 0, written = [], closeErr = None\<rparr>"

definition deviceOn :: "HardwareVariant \<Rightarrow> SerialPort \<Rightarrow> Device" where
  "deviceOn v p =
     \<lparr>Port = ''COM1'', portHandle = Some p, config = None, version = versionLabel v,
      variant = v, hardwareInfo = getHardwareInfo v\<rparr>"

text \<open>
  \<open>exampleLib\<close> stands for the Go library in the evaluations. Every text it is applied
  to there consists of ASCII bytes, and on such a text \<^verbatim>\<open>strings.ToLower\<close> folds the
  letters A to Z and nothing else, \<^verbatim>\<open>strings.TrimSpace\<close> strips the six ASCII
  white-space bytes from both ends, and \<^verbatim>\<open>strings.Fields\<close> splits at runs of those
  bytes; the \<open>ascii\<close> functions below compute that. \<open>sampleParseFloat\<close> is
  \<^verbatim>\<open>strconv.ParseFloat\<close> on the numerals that occur in the examples; every other text
  it meets there is one that \<^verbatim>\<open>ParseFloat\<close> rejects.
\<close>

definition asciiSpace :: "char \<Rightarrow> bool" where
  "asciiSpace c = (c \<in> set [CHR 0x09, CHR 0x0A, CHR 0x0B, CHR 0x0C, CHR 0x0D, CHR 0x20])"

definition asciiTrimSpace :: "string \<Rightarrow> string" where
  "asciiTrimSpace s = rev (dropWhile asciiSpace (rev (dropWhile asciiSpace s)))"

fun asciiFieldsFrom :: "string \<Rightarrow> string \<Rightarrow> string list" where
  "asciiFieldsFrom cur [] = (if cur = [] then [] else [cur])"
| "asciiFieldsFrom cur (c # s) =
     (if asciiSpace c then (if cur = [] then asciiFieldsFrom [] s else cur # asciiFieldsFrom [] s)
      else asciiFieldsFrom (cur @ [c]) s)"

definition asciiFields :: "string \<Rightarrow> string list" where
  "asciiFields s = asciiFieldsFrom [] s"

definition asciiLowerByte :: "char \<Rightarrow> char" where
  "asciiLowerByte c =
     (case map_of (zip ''ABCDEFGHIJKLMNOPQRSTUVWXYZ'' ''abcdefghijklmnopqrstuvwxyz'') c of
        None \<Rightarrow> c
      | Some l \<Rightarrow> l)"

definition asciiToLower :: "string \<Rightarrow> string" where
  "asciiToLower s = map asciiLowerByte s"

definition sampleParseFloat :: "string \<Rightarrow> real option" where
  "sampleParseFloat =
     map_of [(''1000000'', 1000000), (''2000000'', 2000000), (''0.5'', 0.5), (''-0.2'', - 0.2)]"

definition exampleLib :: GoLibrary where
  "exampleLib =
     \<lparr>ParseFloat = sampleParseFloat, ToLower = asciiToLower, TrimSpace = asciiTrimSpace,
      Fields = asciiFields\<rparr>"

definition crlf :: string where
  "crlf = [CHR 0x0D, CHR 0x0A]"

text \<open>
  The reads of a sweep on a port that answers the frequency query with two lines and the
  S11 query with one line; a draining read precedes each answer.
\<close>

definition sweepReads :: "read_result list" where
  "sweepReads =
     [ReadOk [],
      ReadOk (''frequencies'' @ crlf @ ''1000000'' @ crlf @ ''2000000'' @ crlf @ ''ch> ''),
      ReadOk [],
      ReadOk (''data 0'' @ crlf @ ''0.5 -0.2'' @ crlf @ ''ch> ''),
      ReadOk [],
      ReadOk (''data 1'' @ crlf @ ''0.5 -0.2'' @ crlf @ ''ch> '')]"

section \<open>The session invariant\<close>

text \<open>The active capability record is the registry's entry for the active variant.\<close>

definition sessionInvariant :: "Device \<Rightarrow> bool" where
  "sessionInvariant d = (hardwareInfo d = getHardwareInfo (variant d))"

section \<open>Properties of the registry\<close>

text \<open>
  Claim C7. For every declared variant the registry lookup returns a record whose
  frequency range is ordered (\<open>MinHz \<le> MaxHz\<close>), whose point limit is positive and
  whose list of supported ports is not empty. The lookup is a total function with no
  error result: it is defined by equations covering the whole enumeration, the value
  \<^verbatim>\<open>VariantUnknown\<close> included.
\<close>

theorem getHardwareInfo_well_formed:
  "MinHz (FrequencyRange (getHardwareInfo v)) \<le> MaxHz (FrequencyRange (getHardwareInfo v))
   \<and> 0 < MaxSweepPoints (getHardwareInfo v)
   \<and> SupportedPorts (getHardwareInfo v) \<noteq> []"
  by (cases v) simp_all

text \<open>
  Claim C4 (evaluation of the code). The \<^verbatim>\<open>switch\<close> of \<^verbatim>\<open>getHardwareInfo\<close> has no
  case for \<^verbatim>\<open>VariantSAA2\<close> and none for \<^verbatim>\<open>VariantLiteVNA\<close>: for both the lookup
  returns the record of the default branch, whose \<open>Variant\<close> field is
  \<^verbatim>\<open>VariantUnknown\<close> and whose range, point limit, ports, command set and flags are
  the conservative defaults.
\<close>

theorem getHardwareInfo_unlisted_variants:
  "Variant (getHardwareInfo VariantSAA2) = VariantUnknown
   \<and> Variant (getHardwareInfo VariantLiteVNA) = VariantUnknown
   \<and> getHardwareInfo VariantSAA2 = getHardwareInfo VariantUnknown
   \<and> getHardwareInfo VariantLiteVNA = getHardwareInfo VariantUnknown
   \<and> MaxHz (FrequencyRange (getHardwareInfo VariantLiteVNA)) = 900000000
   \<and> MaxSweepPoints (getHardwareInfo VariantLiteVNA) = 101
   \<and> SupportedPorts (getHardwareInfo VariantLiteVNA) = [''S11'']
   \<and> PromptPattern (CommandSet (getHardwareInfo VariantSAA2)) = ''ch>''"
  by simp

text \<open>For the seven variants that the switch lists or defaults to by name, the lookup
  returns the variant's own record.\<close>

lemma getHardwareInfo_Variant:
  "v \<noteq> VariantSAA2 \<Longrightarrow> v \<noteq> VariantLiteVNA \<Longrightarrow> Variant (getHardwareInfo v) = v"
  by (cases v) simp_all

section \<open>Lemmas on formatting and on the command channel\<close>

lemma natDigits_small: "n < 10 \<Longrightarrow> natDigits n = [''0123456789'' ! n]"
  by (subst natDigits.simps) simp

lemma natDigits_large:
  "10 \<le> n \<Longrightarrow> natDigits n = natDigits (n div 10) @ [''0123456789'' ! (n mod 10)]"
  by (subst natDigits.simps) simp

lemmas Itoa_eval = Itoa_def natDigits_small natDigits_large

lemma Sprintf_scoped:
  "Sprintf ''sweep start %d'' [n] = ''sweep start '' @ Itoa n"
  "Sprintf ''sweep stop %d'' [n] = ''sweep stop '' @ Itoa n"
  "Sprintf ''sweep points %d'' [n] = ''sweep points '' @ Itoa n"
  "Sprintf ''start %d'' [n] = ''start '' @ Itoa n"
  "Sprintf ''stop %d'' [n] = ''stop '' @ Itoa n"
  "Sprintf ''points %d'' [n] = ''points '' @ Itoa n"
  "Sprintf ''sweep %d %d %d'' [a, b, c] = ''sweep '' @ Itoa a @ '' '' @ Itoa b @ '' '' @ Itoa c"
  "Sprintf ''data %d'' [n] = ''data '' @ Itoa n"
  by (simp_all add: extraArgs_def)

lemma HasPrefix_prefix: "HasPrefix s p \<longleftrightarrow> prefix p s"
  by (induction s p rule: HasPrefix.induct) auto

lemma Contains_iff: "Contains s sub \<longleftrightarrow> (\<exists>xs ys. s = xs @ sub @ ys)"
proof (induction s)
  case Nil
  then show ?case by auto
next
  case (Cons c s)
  show ?case
  proof
    assume "Contains (c # s) sub"
    then consider "prefix sub (c # s)" | "Contains s sub"
      by (auto simp: HasPrefix_prefix)
    then show "\<exists>xs ys. c # s = xs @ sub @ ys"
    proof cases
      case 1
      then obtain ys where "c # s = sub @ ys" by (auto simp: prefix_def)
      then have "c # s = [] @ sub @ ys" by simp
      then show ?thesis by blast
    next
      case 2
      with Cons obtain xs ys where "s = xs @ sub @ ys" by blast
      then have "c # s = (c # xs) @ sub @ ys" by simp
      then show ?thesis by blast
    qed
  next
    assume "\<exists>xs ys. c # s = xs @ sub @ ys"
    then obtain xs ys where eq: "c # s = xs @ sub @ ys" by blast
    show "Contains (c # s) sub"
    proof (cases xs)
      case Nil
      with eq have "prefix sub (c # s)" by (simp add: prefix_def)
      then show ?thesis by (simp add: HasPrefix_prefix)
    next
      case (Cons x xs')
      with eq have "s = xs' @ sub @ ys" by simp
      with Cons.IH have "Contains s sub" by blast
      then show ?thesis by simp
    qed
  qed
qed

lemma sendCommand_frame:
  "variant (snd (sendCommand d cmd)) = variant d
   \<and> hardwareInfo (snd (sendCommand d cmd)) = hardwareInfo d
   \<and> version (snd (sendCommand d cmd)) = version d"
  by (simp add: sendCommand_def split: option.splits prod.splits)

lemma sendCommand_frame_eq:
  assumes "sendCommand d cmd = (r, d')"
  shows "variant d' = variant d" and "hardwareInfo d' = hardwareInfo d"
  using sendCommand_frame [of d cmd] assms by simp_all

lemma readLoop_written:
  "written (snd (readLoop n acc q)) = written q \<and> wpos (snd (readLoop n acc q)) = wpos q"
proof (induction n acc q rule: readLoop.induct)
  case (1 attempts response p)
  show ?case
    using 1
    by (subst (1 2) readLoop.simps)
       (auto simp: portRead_def split: read_result.splits)
qed

lemma sendCommand_written:
  assumes "portHandle d = Some port"
  shows "\<exists>port'. portHandle (snd (sendCommand d cmd)) = Some port'
           \<and> written port' = written port @ [cmd @ [CHR 0x0D]]"
  using assms
  by (simp add: sendCommand_def portRead_def portWrite_def split_beta readLoop_written
      split: option.splits)

lemma SetSweepConfig_exchanges:
  assumes "\<not> real_of_int s < MinHz (FrequencyRange (hardwareInfo d))"
    and "\<not> real_of_int e > MaxHz (FrequencyRange (hardwareInfo d))"
    and "\<not> p > MaxSweepPoints (hardwareInfo d)"
    and "sendCommand d (Sprintf (SweepCommand (CommandSet (hardwareInfo d))) [s, e, p])
           = ((r1, e1), d1)"
    and "sendCommand d1 (if variant d \<in> {VariantV2, VariantV2Plus, VariantV2Plus4} then ''sweep start '' @ Itoa s
                         else ''start '' @ Itoa s) = ((r2, e2), d2)"
    and "sendCommand d2 (if variant d \<in> {VariantV2, VariantV2Plus, VariantV2Plus4} then ''sweep stop '' @ Itoa e
                         else ''stop '' @ Itoa e) = ((r3, e3), d3)"
    and "sendCommand d3 (if variant d \<in> {VariantV2, VariantV2Plus, VariantV2Plus4} then ''sweep points '' @ Itoa p
                         else ''points '' @ Itoa p) = ((r4, e4), d4)"
  shows "SetSweepConfig d s e p =
     (if e1 = None then (None, d1)
      else if e2 = None then (None, d2)
      else if e3 = None then (None, d3)
      else if e4 = None then (None, d4)
      else (Some (ErrCommandFailed (the e1)), d4))"
proof (cases "variant d \<in> {VariantV2, VariantV2Plus, VariantV2Plus4}")
  case True
  with assms show ?thesis
    by (simp add: SetSweepConfig_def Sprintf_scoped del: Sprintf.simps split: option.split)
next
  case False
  with assms show ?thesis
    by (simp add: SetSweepConfig_def Sprintf_scoped del: Sprintf.simps split: option.split)
qed

section \<open>Sweep configuration: range checks and fallback commands\<close>

lemma SetSweepConfig_in_range_result:
  assumes "\<not> real_of_int s < MinHz (FrequencyRange (hardwareInfo d))"
    and "\<not> real_of_int e > MaxHz (FrequencyRange (hardwareInfo d))"
    and "\<not> p > MaxSweepPoints (hardwareInfo d)"
  shows "fst (SetSweepConfig d s e p) = None
         \<or> (\<exists>err. fst (SetSweepConfig d s e p) = Some (ErrCommandFailed err))"
proof -
  obtain r1 e1 d1 where x1:
    "sendCommand d (Sprintf (SweepCommand (CommandSet (hardwareInfo d))) [s, e, p]) = ((r1, e1), d1)"
    by (metis surj_pair)
  obtain r2 e2 d2 where x2:
    "sendCommand d1 (if variant d \<in> {VariantV2, VariantV2Plus, VariantV2Plus4} then ''sweep start '' @ Itoa s
                     else ''start '' @ Itoa s) = ((r2, e2), d2)"
    by (metis surj_pair)
  obtain r3 e3 d3 where x3:
    "sendCommand d2 (if variant d \<in> {VariantV2, VariantV2Plus, VariantV2Plus4} then ''sweep stop '' @ Itoa e
                     else ''stop '' @ Itoa e) = ((r3, e3), d3)"
    by (metis surj_pair)
  obtain r4 e4 d4 where x4:
    "sendCommand d3 (if variant d \<in> {VariantV2, VariantV2Plus, VariantV2Plus4} then ''sweep points '' @ Itoa p
                     else ''points '' @ Itoa p) = ((r4, e4), d4)"
    by (metis surj_pair)
  show ?thesis
    by (simp add: SetSweepConfig_exchanges [OF assms x1 x2 x3 x4])
qed

lemma SetSweepConfig_frame:
  "variant (snd (SetSweepConfig d s e p)) = variant d
   \<and> hardwareInfo (snd (SetSweepConfig d s e p)) = hardwareInfo d"
proof (cases "\<not> real_of_int s < MinHz (FrequencyRange (hardwareInfo d))
    \<and> \<not> real_of_int e > MaxHz (FrequencyRange (hardwareInfo d))
    \<and> \<not> p > MaxSweepPoints (hardwareInfo d)")
  case False
  then show ?thesis by (auto simp: SetSweepConfig_def)
next
  case True
  obtain r1 e1 d1 where x1:
    "sendCommand d (Sprintf (SweepCommand (CommandSet (hardwareInfo d))) [s, e, p]) = ((r1, e1), d1)"
    by (metis surj_pair)
  obtain r2 e2 d2 where x2:
    "sendCommand d1 (if variant d \<in> {VariantV2, VariantV2Plus, VariantV2Plus4} then ''sweep start '' @ Itoa s
                     else ''start '' @ Itoa s) = ((r2, e2), d2)"
    by (metis surj_pair)
  obtain r3 e3 d3 where x3:
    "sendCommand d2 (if variant d \<in> {VariantV2, VariantV2Plus, VariantV2Plus4} then ''sweep stop '' @ Itoa e
                     else ''stop '' @ Itoa e) = ((r3, e3), d3)"
    by (metis surj_pair)
  obtain r4 e4 d4 where x4:
    "sendCommand d3 (if variant d \<in> {VariantV2, VariantV2Plus, VariantV2Plus4} then ''sweep points '' @ Itoa p
                     else ''points '' @ Itoa p) = ((r4, e4), d4)"
    by (metis surj_pair)
  have eq: "SetSweepConfig d s e p =
     (if e1 = None then (None, d1)
      else if e2 = None then (None, d2)
      else if e3 = None then (None, d3)
      else if e4 = None then (None, d4)
      else (Some (ErrCommandFailed (the e1)), d4))"
    using True by (intro SetSweepConfig_exchanges [OF _ _ _ x1 x2 x3 x4]) simp_all
  have "variant d1 = variant d" "hardwareInfo d1 = hardwareInfo d"
    using sendCommand_frame_eq [OF x1] by simp_all
  moreover have "variant d2 = variant d1" "hardwareInfo d2 = hardwareInfo d1"
    using sendCommand_frame_eq [OF x2] by simp_all
  moreover have "variant d3 = variant d2" "hardwareInfo d3 = hardwareInfo d2"
    using sendCommand_frame_eq [OF x3] by simp_all
  moreover have "variant d4 = variant d3" "hardwareInfo d4 = hardwareInfo d3"
    using sendCommand_frame_eq [OF x4] by simp_all
  ultimately show ?thesis by (simp add: eq)
qed

text \<open>
  Claim C1. \<^verbatim>\<open>SetSweepConfig\<close> returns an out-of-range error if and only if the start
  frequency is below the minimum of the active capability record, or the stop frequency
  is above its maximum, or the number of points exceeds its point limit. The three
  bounds are checked in that order and the first one violated is the one reported; the
  device is left untouched. When all three bounds hold and the exchange of the primary
  sweep command succeeds, the call returns nil.
\<close>

theorem SetSweepConfig_range_check:
  "((\<exists>v. fst (SetSweepConfig d s e p) = Some (ErrOutOfRange v)) \<longleftrightarrow>
      (real_of_int s < MinHz (FrequencyRange (hardwareInfo d))
       \<or> real_of_int e > MaxHz (FrequencyRange (hardwareInfo d))
       \<or> p > MaxSweepPoints (hardwareInfo d)))
   \<and> (real_of_int s < MinHz (FrequencyRange (hardwareInfo d)) \<longrightarrow>
        SetSweepConfig d s e p = (Some (ErrOutOfRange StartBelowMin), d))
   \<and> (\<not> real_of_int s < MinHz (FrequencyRange (hardwareInfo d))
        \<and> real_of_int e > MaxHz (FrequencyRange (hardwareInfo d)) \<longrightarrow>
        SetSweepConfig d s e p = (Some (ErrOutOfRange StopAboveMax), d))
   \<and> (\<not> real_of_int s < MinHz (FrequencyRange (hardwareInfo d))
        \<and> \<not> real_of_int e > MaxHz (FrequencyRange (hardwareInfo d))
        \<and> p > MaxSweepPoints (hardwareInfo d) \<longrightarrow>
        SetSweepConfig d s e p = (Some (ErrOutOfRange PointsAboveMax), d))
   \<and> (\<not> real_of_int s < MinHz (FrequencyRange (hardwareInfo d))
        \<and> \<not> real_of_int e > MaxHz (FrequencyRange (hardwareInfo d))
        \<and> \<not> p > MaxSweepPoints (hardwareInfo d)
        \<and> snd (fst (sendCommand d
                  (Sprintf (SweepCommand (CommandSet (hardwareInfo d))) [s, e, p]))) = None \<longrightarrow>
        fst (SetSweepConfig d s e p) = None)"
proof -
  let ?lo = "real_of_int s < MinHz (FrequencyRange (hardwareInfo d))"
  let ?hi = "real_of_int e > MaxHz (FrequencyRange (hardwareInfo d))"
  let ?pts = "p > MaxSweepPoints (hardwareInfo d)"
  have a: "?lo \<Longrightarrow> SetSweepConfig d s e p = (Some (ErrOutOfRange StartBelowMin), d)"
    by (simp add: SetSweepConfig_def)
  have b: "\<not> ?lo \<Longrightarrow> ?hi \<Longrightarrow> SetSweepConfig d s e p = (Some (ErrOutOfRange StopAboveMax), d)"
    by (simp add: SetSweepConfig_def)
  have c: "\<not> ?lo \<Longrightarrow> \<not> ?hi \<Longrightarrow> ?pts \<Longrightarrow>
        SetSweepConfig d s e p = (Some (ErrOutOfRange PointsAboveMax), d)"
    by (simp add: SetSweepConfig_def)
  have ok: "\<not> ?lo \<Longrightarrow> \<not> ?hi \<Longrightarrow> \<not> ?pts \<Longrightarrow>
        \<not> (\<exists>v. fst (SetSweepConfig d s e p) = Some (ErrOutOfRange v))"
    using SetSweepConfig_in_range_result [of s d e p] by auto
  have prim: "\<not> ?lo \<Longrightarrow> \<not> ?hi \<Longrightarrow> \<not> ?pts \<Longrightarrow>
        snd (fst (sendCommand d
                  (Sprintf (SweepCommand (CommandSet (hardwareInfo d))) [s, e, p]))) = None \<Longrightarrow>
        fst (SetSweepConfig d s e p) = None"
    by (simp add: SetSweepConfig_def Let_def split_beta del: Sprintf.simps)
  have iff: "(\<exists>v. fst (SetSweepConfig d s e p) = Some (ErrOutOfRange v)) \<longleftrightarrow> (?lo \<or> ?hi \<or> ?pts)"
    using a b c ok by (metis fst_conv)
  show ?thesis
    using a b c prim iff by blast
qed

text \<open>
  Evaluation of C1 on a V1 session: \<^verbatim>\<open>configure(10, 900000000, 101)\<close> is rejected
  because 10 is below the minimum of 50000; a stop frequency of 900000001 and a request
  for 102 points are rejected likewise; and \<^verbatim>\<open>configure(50000, 900000000, 101)\<close>
  succeeds on a port that answers the primary command with a prompt.
\<close>

theorem SetSweepConfig_range_check_witness:
  "real_of_int 10 < MinHz (FrequencyRange (hardwareInfo (deviceOn VariantV1 (scriptedPort []))))
   \<and> SetSweepConfig (deviceOn VariantV1 (scriptedPort [])) 10 900000000 101
       = (Some (ErrOutOfRange StartBelowMin), deviceOn VariantV1 (scriptedPort []))
   \<and> real_of_int 900000001 > MaxHz (FrequencyRange (hardwareInfo (deviceOn VariantV1 (scriptedPort []))))
   \<and> SetSweepConfig (deviceOn VariantV1 (scriptedPort [])) 50000 900000001 101
       = (Some (ErrOutOfRange StopAboveMax), deviceOn VariantV1 (scriptedPort []))
   \<and> 102 > MaxSweepPoints (hardwareInfo (deviceOn VariantV1 (scriptedPort [])))
   \<and> SetSweepConfig (deviceOn VariantV1 (scriptedPort [])) 50000 900000000 102
       = (Some (ErrOutOfRange PointsAboveMax), deviceOn VariantV1 (scriptedPort []))
   \<and> snd (fst (sendCommand (deviceOn VariantV1 (scriptedPort [ReadOk [], ReadOk ''ch> '']))
                 (Sprintf ''sweep %d %d %d'' [50000, 900000000, 101]))) = None
   \<and> fst (SetSweepConfig (deviceOn VariantV1 (scriptedPort [ReadOk [], ReadOk ''ch> '']))
            50000 900000000 101) = None"
  using SetSweepConfig_range_check [of "deviceOn VariantV1 (scriptedPort [])" 10 900000000 101]
    SetSweepConfig_range_check [of "deviceOn VariantV1 (scriptedPort [])" 50000 900000001 101]
    SetSweepConfig_range_check [of "deviceOn VariantV1 (scriptedPort [])" 50000 900000000 102]
    SetSweepConfig_range_check
      [of "deviceOn VariantV1 (scriptedPort [ReadOk [], ReadOk ''ch> ''])" 50000 900000000 101]
  by (simp add: deviceOn_def scriptedPort_def sendCommand_def portRead_def portWrite_def
      readLoop.simps maxAttempts_def del: Sprintf.simps)

lemma sendCommand_busy:
  "sendCommand (deviceOn v \<lparr>rd = (\<lambda>n. ReadOk ''ch> ''), wr = (\<lambda>n. if n < k then Some ''busy'' else None),
      rpos = i, wpos = j, written = ws, closeErr = None\<rparr>) cmd =
   (if j < k then (([], Some (ErrWriteFailed (ErrPort ''busy''))),
        deviceOn v \<lparr>rd = (\<lambda>n. ReadOk ''ch> ''), wr = (\<lambda>n. if n < k then Some ''busy'' else None),
      rpos = Suc i, wpos = Suc j, written = ws @ [cmd @ [CHR 0x0D]], closeErr = None\<rparr>)
    else ((''ch> '', None), deviceOn v \<lparr>rd = (\<lambda>n. ReadOk ''ch> ''), wr = (\<lambda>n. if n < k then Some ''busy'' else None),
      rpos = Suc (Suc i), wpos = Suc j, written = ws @ [cmd @ [CHR 0x0D]], closeErr = None\<rparr>))"
  by (simp add: deviceOn_def sendCommand_def portRead_def portWrite_def
      readLoop.simps maxAttempts_def)

lemma deviceOn_fields:
  "variant (deviceOn v q) = v" "hardwareInfo (deviceOn v q) = getHardwareInfo v"
  "portHandle (deviceOn v q) = Some q"
  by (simp_all add: deviceOn_def)

lemma busy_chain:
  assumes "sendCommand (deviceOn v (busyPort k)) c1 = ((r1, e1), d1)"
    and "sendCommand d1 c2 = ((r2, e2), d2)"
    and "sendCommand d2 c3 = ((r3, e3), d3)"
    and "sendCommand d3 c4 = ((r4, e4), d4)"
  shows "e1 = (if 0 < k then Some (ErrWriteFailed (ErrPort ''busy'')) else None)
       \<and> e2 = (if 1 < k then Some (ErrWriteFailed (ErrPort ''busy'')) else None)
       \<and> e3 = (if 2 < k then Some (ErrWriteFailed (ErrPort ''busy'')) else None)
       \<and> e4 = (if 3 < k then Some (ErrWriteFailed (ErrPort ''busy'')) else None)
       \<and> map_option written (portHandle d1) = Some [c1 @ [CHR 0x0D]]
       \<and> map_option written (portHandle d2) = Some [c1 @ [CHR 0x0D], c2 @ [CHR 0x0D]]
       \<and> map_option written (portHandle d3) = Some [c1 @ [CHR 0x0D], c2 @ [CHR 0x0D], c3 @ [CHR 0x0D]]
       \<and> map_option written (portHandle d4)
           = Some [c1 @ [CHR 0x0D], c2 @ [CHR 0x0D], c3 @ [CHR 0x0D], c4 @ [CHR 0x0D]]"
proof -
  let ?B = "\<lambda>i j ws. deviceOn v \<lparr>rd = (\<lambda>n. ReadOk ''ch> ''),
      wr = (\<lambda>n. if n < k then Some ''busy'' else None),
      rpos = i, wpos = j, written = ws, closeErr = None\<rparr>"
  from assms(1) obtain i1 where d1: "d1 = ?B i1 (Suc 0) [c1 @ [CHR 0x0D]]"
    and e1: "e1 = (if 0 < k then Some (ErrWriteFailed (ErrPort ''busy'')) else None)"
    by (auto simp: busyPort_def sendCommand_busy split: if_splits)
  from assms(2) obtain i2 where d2: "d2 = ?B i2 (Suc (Suc 0)) [c1 @ [CHR 0x0D], c2 @ [CHR 0x0D]]"
    and e2: "e2 = (if 1 < k then Some (ErrWriteFailed (ErrPort ''busy'')) else None)"
    unfolding d1 by (auto simp: sendCommand_busy split: if_splits)
  from assms(3) obtain i3 where d3: "d3 = ?B i3 (Suc (Suc (Suc 0)))
        [c1 @ [CHR 0x0D], c2 @ [CHR 0x0D], c3 @ [CHR 0x0D]]"
    and e3: "e3 = (if 2 < k then Some (ErrWriteFailed (ErrPort ''busy'')) else None)"
    unfolding d2 by (auto simp: sendCommand_busy split: if_splits)
  from assms(4) obtain i4 where d4: "d4 = ?B i4 (Suc (Suc (Suc (Suc 0))))
        [c1 @ [CHR 0x0D], c2 @ [CHR 0x0D], c3 @ [CHR 0x0D], c4 @ [CHR 0x0D]]"
    and e4: "e4 = (if 3 < k then Some (ErrWriteFailed (ErrPort ''busy'')) else None)"
    unfolding d3 by (auto simp: sendCommand_busy split: if_splits)
  show ?thesis
    by (simp add: e1 e2 e3 e4 d1 d2 d3 d4 deviceOn_def)
qed

text \<open>
  The fallback commands. Suppose the three bounds hold and the exchange of the primary
  sweep command fails with error \<open>err\<close>. Then \<^verbatim>\<open>SetSweepConfig\<close> sends three further
  commands one after the other, each only if the one before it failed. The labels of the
  \<^verbatim>\<open>switch\<close> decide their texts: \<^verbatim>\<open>sweep start\<close>, \<^verbatim>\<open>sweep stop\<close>,
  \<^verbatim>\<open>sweep points\<close> when the variant is V2, V2Plus or V2Plus4, and \<^verbatim>\<open>start\<close>,
  \<^verbatim>\<open>stop\<close>, \<^verbatim>\<open>points\<close> for the six variants of the default branch (Unknown, V1, VH,
  SAA2, TinySA, LiteVNA). The call returns nil as soon as one of them succeeds, and it
  returns the command-failed error wrapping \<open>err\<close> only when all three fail as well.
  The bytes written to the port are the commands sent up to that point, each followed by
  a carriage return.
\<close>

lemma SetSweepConfig_fallback:
  assumes "\<not> real_of_int s < MinHz (FrequencyRange (hardwareInfo d))"
    and "\<not> real_of_int e > MaxHz (FrequencyRange (hardwareInfo d))"
    and "\<not> p > MaxSweepPoints (hardwareInfo d)"
    and "primary = Sprintf (SweepCommand (CommandSet (hardwareInfo d))) [s, e, p]"
    and "setStart = (if variant d \<in> {VariantV2, VariantV2Plus, VariantV2Plus4} then ''sweep start '' @ Itoa s else ''start '' @ Itoa s)"
    and "setStop = (if variant d \<in> {VariantV2, VariantV2Plus, VariantV2Plus4} then ''sweep stop '' @ Itoa e else ''stop '' @ Itoa e)"
    and "setPoints = (if variant d \<in> {VariantV2, VariantV2Plus, VariantV2Plus4} then ''sweep points '' @ Itoa p else ''points '' @ Itoa p)"
    and "sendCommand d primary = ((r1, Some err), d1)"
    and "sendCommand d1 setStart = ((r2, e2), d2)"
    and "sendCommand d2 setStop = ((r3, e3), d3)"
    and "sendCommand d3 setPoints = ((r4, e4), d4)"
  shows "SetSweepConfig d s e p =
           (if e2 = None then (None, d2)
            else if e3 = None then (None, d3)
            else if e4 = None then (None, d4)
            else (Some (ErrCommandFailed err), d4))
         \<and> (\<forall>port. portHandle d = Some port \<longrightarrow>
              (\<exists>port'. portHandle (snd (SetSweepConfig d s e p)) = Some port'
                 \<and> written port' = written port @
                      map (\<lambda>c. c @ [CHR 0x0D])
                        (if e2 = None then [primary, setStart]
                         else if e3 = None then [primary, setStart, setStop]
                         else [primary, setStart, setStop, setPoints])))"
proof -
  have eq: "SetSweepConfig d s e p =
           (if e2 = None then (None, d2)
            else if e3 = None then (None, d3)
            else if e4 = None then (None, d4)
            else (Some (ErrCommandFailed err), d4))"
    using SetSweepConfig_exchanges [OF assms(1-3), of r1 "Some err" d1 r2 e2 d2 r3 e3 d3 r4 e4 d4]
      assms(4-11) by simp
  have tr: "\<exists>port'. portHandle (snd (SetSweepConfig d s e p)) = Some port'
                 \<and> written port' = written port @
                      map (\<lambda>c. c @ [CHR 0x0D])
                        (if e2 = None then [primary, setStart]
                         else if e3 = None then [primary, setStart, setStop]
                         else [primary, setStart, setStop, setPoints])"
    if h: "portHandle d = Some port" for port
  proof -
    from sendCommand_written [OF h, of primary] assms(8)
    obtain p1 where p1: "portHandle d1 = Some p1"
      "written p1 = written port @ [primary @ [CHR 0x0D]]" by auto
    from sendCommand_written [OF p1(1), of setStart] assms(9)
    obtain p2 where p2: "portHandle d2 = Some p2"
      "written p2 = written p1 @ [setStart @ [CHR 0x0D]]" by auto
    from sendCommand_written [OF p2(1), of setStop] assms(10)
    obtain p3 where p3: "portHandle d3 = Some p3"
      "written p3 = written p2 @ [setStop @ [CHR 0x0D]]" by auto
    from sendCommand_written [OF p3(1), of setPoints] assms(11)
    obtain p4 where p4: "portHandle d4 = Some p4"
      "written p4 = written p3 @ [setPoints @ [CHR 0x0D]]" by auto
    show ?thesis
      using p1 p2 p3 p4 by (simp add: eq)
  qed
  show ?thesis using eq tr by blast
qed

text \<open>
  Two runs of the fallback commands. On a V2Plus4 device whose port rejects the first two
  writes, the primary command and \<^verbatim>\<open>sweep start\<close> fail, \<^verbatim>\<open>sweep stop\<close> succeeds,
  the call returns nil and \<^verbatim>\<open>sweep points\<close> is never written. On a V1 device whose
  port rejects four writes, all four commands are written and the call fails with the
  error of the primary command wrapped.
\<close>

lemma SetSweepConfig_fallback_example:
  "fst (SetSweepConfig (deviceOn VariantV2Plus4 (busyPort 2)) 50000 900000 101) = None
   \<and> map_option written
        (portHandle (snd (SetSweepConfig (deviceOn VariantV2Plus4 (busyPort 2)) 50000 900000 101)))
       = Some [''sweep 50000 900000 101'' @ [CHR 0x0D], ''sweep start 50000'' @ [CHR 0x0D],
               ''sweep stop 900000'' @ [CHR 0x0D]]
   \<and> fst (SetSweepConfig (deviceOn VariantV1 (busyPort 4)) 50000 900000 101)
       = Some (ErrCommandFailed (ErrWriteFailed (ErrPort ''busy'')))
   \<and> map_option written
        (portHandle (snd (SetSweepConfig (deviceOn VariantV1 (busyPort 4)) 50000 900000 101)))
       = Some [''sweep 50000 900000 101'' @ [CHR 0x0D], ''start 50000'' @ [CHR 0x0D],
               ''stop 900000'' @ [CHR 0x0D], ''points 101'' @ [CHR 0x0D]]"
proof -
  have run: "SetSweepConfig (deviceOn v (busyPort k)) 50000 900000 101 =
        (if k = 2 then (None, d3)
         else (Some (ErrCommandFailed (ErrWriteFailed (ErrPort ''busy''))), d4))
      \<and> map_option written (portHandle d3)
          = Some [''sweep 50000 900000 101'' @ [CHR 0x0D], c2 @ [CHR 0x0D], c3 @ [CHR 0x0D]]
      \<and> map_option written (portHandle d4)
          = Some [''sweep 50000 900000 101'' @ [CHR 0x0D], c2 @ [CHR 0x0D], c3 @ [CHR 0x0D],
                  c4 @ [CHR 0x0D]]"
    if vk: "v = VariantV2Plus4 \<and> k = 2 \<or> v = VariantV1 \<and> k = 4"
      and c: "c2 = (if v = VariantV1 then ''start 50000'' else ''sweep start 50000'')"
        "c3 = (if v = VariantV1 then ''stop 900000'' else ''sweep stop 900000'')"
        "c4 = (if v = VariantV1 then ''points 101'' else ''sweep points 101'')"
      and x: "sendCommand (deviceOn v (busyPort k))
                (Sprintf (SweepCommand (CommandSet (hardwareInfo (deviceOn v (busyPort k)))))
                   [50000, 900000, 101]) = ((r1, e1), d1)"
        "sendCommand d1 c2 = ((r2, e2), d2)"
        "sendCommand d2 c3 = ((r3, e3), d3)"
        "sendCommand d3 c4 = ((r4, e4), d4)"
    for v k c2 c3 c4 r1 e1 d1 r2 e2 d2 r3 e3 d3 r4 e4 d4
  proof -
    let ?a = "deviceOn v (busyPort k)"
    have ra: "\<not> real_of_int 50000 < MinHz (FrequencyRange (hardwareInfo ?a))"
      "\<not> real_of_int 900000 > MaxHz (FrequencyRange (hardwareInfo ?a))"
      "\<not> 101 > MaxSweepPoints (hardwareInfo ?a)"
      using vk by (auto simp: deviceOn_def)
    have cs: "c2 = (if variant ?a \<in> {VariantV2, VariantV2Plus, VariantV2Plus4}
               then ''sweep start '' @ Itoa 50000 else ''start '' @ Itoa 50000)"
      "c3 = (if variant ?a \<in> {VariantV2, VariantV2Plus, VariantV2Plus4}
               then ''sweep stop '' @ Itoa 900000 else ''stop '' @ Itoa 900000)"
      "c4 = (if variant ?a \<in> {VariantV2, VariantV2Plus, VariantV2Plus4}
               then ''sweep points '' @ Itoa 101 else ''points '' @ Itoa 101)"
      using vk c by (auto simp: deviceOn_def Itoa_eval)
    note ch = busy_chain [OF x]
    have e1: "e1 = Some (ErrWriteFailed (ErrPort ''busy''))"
      using ch vk by auto
    have prim: "Sprintf (SweepCommand (CommandSet (hardwareInfo ?a))) [50000, 900000, 101]
        = ''sweep 50000 900000 101''"
      using vk by (auto simp: deviceOn_def Sprintf_scoped Itoa_eval simp del: Sprintf.simps)
    from SetSweepConfig_fallback [OF ra refl cs x(1) [unfolded e1] x(2-4)] ch vk
    show ?thesis
      by (auto simp: prim)
  qed
  let ?a = "deviceOn VariantV2Plus4 (busyPort 2)"
  let ?b = "deviceOn VariantV1 (busyPort 4)"
  obtain r1 e1 d1 where a1: "sendCommand ?a
      (Sprintf (SweepCommand (CommandSet (hardwareInfo ?a))) [50000, 900000, 101]) = ((r1, e1), d1)"
    by (metis surj_pair)
  obtain r2 e2 d2 where a2: "sendCommand d1 ''sweep start 50000'' = ((r2, e2), d2)"
    by (metis surj_pair)
  obtain r3 e3 d3 where a3: "sendCommand d2 ''sweep stop 900000'' = ((r3, e3), d3)"
    by (metis surj_pair)
  obtain r4 e4 d4 where a4: "sendCommand d3 ''sweep points 101'' = ((r4, e4), d4)"
    by (metis surj_pair)
  obtain s1 f1 g1 where b1: "sendCommand ?b
      (Sprintf (SweepCommand (CommandSet (hardwareInfo ?b))) [50000, 900000, 101]) = ((s1, f1), g1)"
    by (metis surj_pair)
  obtain s2 f2 g2 where b2: "sendCommand g1 ''start 50000'' = ((s2, f2), g2)"
    by (metis surj_pair)
  obtain s3 f3 g3 where b3: "sendCommand g2 ''stop 900000'' = ((s3, f3), g3)"
    by (metis surj_pair)
  obtain s4 f4 g4 where b4: "sendCommand g3 ''points 101'' = ((s4, f4), g4)"
    by (metis surj_pair)
  from run [OF _ _ _ _ a1 a2 a3 a4] run [OF _ _ _ _ b1 b2 b3 b4]
  show ?thesis
    by simp
qed

text \<open>
  Claim C8 (evaluation of the code). The variant SAA2 is a member of the V2 family
  everywhere else in the driver: \<^verbatim>\<open>OpenWithVariant\<close> labels it \<^verbatim>\<open>v2\<close> in one case list with V2,
  V2Plus and V2Plus4, and \<^verbatim>\<open>GetInfo\<close> and \<^verbatim>\<open>DetectVersion\<close> treat it together with
  them. The \<^verbatim>\<open>switch\<close> of \<^verbatim>\<open>SetSweepConfig\<close> leaves it out. On an SAA2 device whose
  port rejects four writes, with the arguments 50000, 900000 and 101 in range, the call
  fails with the error of the primary command wrapped after having written the primary
  command followed by \<^verbatim>\<open>start 50000\<close>, \<^verbatim>\<open>stop 900000\<close> and \<^verbatim>\<open>points 101\<close>: the
  commands of the other variants, not \<^verbatim>\<open>sweep start\<close>, \<^verbatim>\<open>sweep stop\<close> and
  \<^verbatim>\<open>sweep points\<close>, which the same run on a V2 device writes.
\<close>

theorem SetSweepConfig_SAA2_commands:
  "versionLabel VariantSAA2 = ''v2''
   \<and> fst (SetSweepConfig (deviceOn VariantSAA2 (busyPort 4)) 50000 900000 101)
       = Some (ErrCommandFailed (ErrWriteFailed (ErrPort ''busy'')))
   \<and> map_option written
        (portHandle (snd (SetSweepConfig (deviceOn VariantSAA2 (busyPort 4)) 50000 900000 101)))
       = Some [''sweep 50000 900000 101'' @ [CHR 0x0D], ''start 50000'' @ [CHR 0x0D],
               ''stop 900000'' @ [CHR 0x0D], ''points 101'' @ [CHR 0x0D]]
   \<and> map_option written
        (portHandle (snd (SetSweepConfig (deviceOn VariantV2 (busyPort 4)) 50000 900000 101)))
       = Some [''sweep 50000 900000 101'' @ [CHR 0x0D], ''sweep start 50000'' @ [CHR 0x0D],
               ''sweep stop 900000'' @ [CHR 0x0D], ''sweep points 101'' @ [CHR 0x0D]]"
proof -
  have run: "SetSweepConfig (deviceOn v (busyPort 4)) 50000 900000 101 =
        (Some (ErrCommandFailed (ErrWriteFailed (ErrPort ''busy''))), d4)
      \<and> map_option written (portHandle d4)
          = Some [''sweep 50000 900000 101'' @ [CHR 0x0D], c2 @ [CHR 0x0D], c3 @ [CHR 0x0D],
                  c4 @ [CHR 0x0D]]"
    if v: "v = VariantSAA2 \<or> v = VariantV2"
      and c: "c2 = (if v = VariantV2 then ''sweep start 50000'' else ''start 50000'')"
        "c3 = (if v = VariantV2 then ''sweep stop 900000'' else ''stop 900000'')"
        "c4 = (if v = VariantV2 then ''sweep points 101'' else ''points 101'')"
      and x: "sendCommand (deviceOn v (busyPort 4))
                (Sprintf (SweepCommand (CommandSet (hardwareInfo (deviceOn v (busyPort 4)))))
                   [50000, 900000, 101]) = ((r1, e1), d1)"
        "sendCommand d1 c2 = ((r2, e2), d2)"
        "sendCommand d2 c3 = ((r3, e3), d3)"
        "sendCommand d3 c4 = ((r4, e4), d4)"
    for v c2 c3 c4 r1 e1 d1 r2 e2 d2 r3 e3 d3 r4 e4 d4
  proof -
    let ?a = "deviceOn v (busyPort 4)"
    have ra: "\<not> real_of_int 50000 < MinHz (FrequencyRange (hardwareInfo ?a))"
      "\<not> real_of_int 900000 > MaxHz (FrequencyRange (hardwareInfo ?a))"
      "\<not> 101 > MaxSweepPoints (hardwareInfo ?a)"
      using v by (auto simp: deviceOn_def)
    have cs: "(if variant ?a \<in> {VariantV2, VariantV2Plus, VariantV2Plus4}
               then ''sweep start '' @ Itoa 50000 else ''start '' @ Itoa 50000) = c2"
      "(if variant ?a \<in> {VariantV2, VariantV2Plus, VariantV2Plus4}
               then ''sweep stop '' @ Itoa 900000 else ''stop '' @ Itoa 900000) = c3"
      "(if variant ?a \<in> {VariantV2, VariantV2Plus, VariantV2Plus4}
               then ''sweep points '' @ Itoa 101 else ''points '' @ Itoa 101) = c4"
      using v c by (auto simp: deviceOn_def Itoa_eval)
    note ch = busy_chain [OF x]
    have prim: "Sprintf (SweepCommand (CommandSet (hardwareInfo ?a))) [50000, 900000, 101]
        = ''sweep 50000 900000 101''"
      using v by (auto simp: deviceOn_def Sprintf_scoped Itoa_eval simp del: Sprintf.simps)
    from SetSweepConfig_exchanges [OF ra x(1), unfolded cs, OF x(2-4)] ch
    show ?thesis
      by (auto simp: prim)
  qed
  let ?a = "deviceOn VariantSAA2 (busyPort 4)"
  let ?b = "deviceOn VariantV2 (busyPort 4)"
  obtain r1 e1 d1 where a1: "sendCommand ?a
      (Sprintf (SweepCommand (CommandSet (hardwareInfo ?a))) [50000, 900000, 101]) = ((r1, e1), d1)"
    by (metis surj_pair)
  obtain r2 e2 d2 where a2: "sendCommand d1 ''start 50000'' = ((r2, e2), d2)"
    by (metis surj_pair)
  obtain r3 e3 d3 where a3: "sendCommand d2 ''stop 900000'' = ((r3, e3), d3)"
    by (metis surj_pair)
  obtain r4 e4 d4 where a4: "sendCommand d3 ''points 101'' = ((r4, e4), d4)"
    by (metis surj_pair)
  obtain s1 f1 g1 where b1: "sendCommand ?b
      (Sprintf (SweepCommand (CommandSet (hardwareInfo ?b))) [50000, 900000, 101]) = ((s1, f1), g1)"
    by (metis surj_pair)
  obtain s2 f2 g2 where b2: "sendCommand g1 ''sweep start 50000'' = ((s2, f2), g2)"
    by (metis surj_pair)
  obtain s3 f3 g3 where b3: "sendCommand g2 ''sweep stop 900000'' = ((s3, f3), g3)"
    by (metis surj_pair)
  obtain s4 f4 g4 where b4: "sendCommand g3 ''sweep points 101'' = ((s4, f4), g4)"
    by (metis surj_pair)
  from run [OF _ _ _ _ a1 a2 a3 a4] run [OF _ _ _ _ b1 b2 b3 b4]
  show ?thesis
    by simp
qed

section \<open>The session invariant is maintained\<close>

lemma RunSweep_frame:
  "variant (snd (RunSweep lib d)) = variant d
   \<and> hardwareInfo (snd (RunSweep lib d)) = hardwareInfo d"
proof -
  obtain r1 e1 d1 where x1:
    "sendCommand d (FreqCommand (CommandSet (hardwareInfo d))) = ((r1, e1), d1)"
    by (metis surj_pair)
  obtain r2 e2 d2 where x2:
    "sendCommand d1 (Sprintf (DataCommand (CommandSet (hardwareInfo d))) [0]) = ((r2, e2), d2)"
    by (metis surj_pair)
  obtain r3 e3 d3 where x3:
    "sendCommand d2 (Sprintf (DataCommand (CommandSet (hardwareInfo d))) [1]) = ((r3, e3), d3)"
    by (metis surj_pair)
  have f: "variant d1 = variant d" "hardwareInfo d1 = hardwareInfo d"
    "variant d2 = variant d" "hardwareInfo d2 = hardwareInfo d"
    "variant d3 = variant d" "hardwareInfo d3 = hardwareInfo d"
    using sendCommand_frame_eq [OF x1] sendCommand_frame_eq [OF x2] sendCommand_frame_eq [OF x3]
    by simp_all
  show ?thesis
    by (simp add: RunSweep_def Let_def f x1 x2 x3 IsPortSupported_def del: Sprintf.simps
        split: option.split)
qed

lemma GetInfo_frame:
  "variant (snd (GetInfo lib d)) = variant d
   \<and> hardwareInfo (snd (GetInfo lib d)) = hardwareInfo d"
proof -
  obtain r1 e1 d1 where x1:
    "sendCommand d (InfoCommand (CommandSet (hardwareInfo d))) = ((r1, e1), d1)"
    by (metis surj_pair)
  show ?thesis
    using sendCommand_frame_eq [OF x1]
    by (simp add: GetInfo_def Let_def x1 split: option.split)
qed

lemma probe_frame:
  "variant (snd (probe d)) = variant d \<and> hardwareInfo (snd (probe d)) = hardwareInfo d"
  by (simp add: probe_def split: option.splits prod.splits read_result.splits)

lemma Open_establishes:
  "Open port custom OpenPort = Inr d \<Longrightarrow> variant d = VariantUnknown \<and> sessionInvariant d"
  by (auto simp: Open_def sessionInvariant_def split: sum.splits list.splits option.splits)

lemma OpenWithVariant_establishes:
  "OpenWithVariant port v OpenPort = Inr d \<Longrightarrow> variant d = v \<and> sessionInvariant d"
  by (auto simp: OpenWithVariant_def sessionInvariant_def split: sum.splits)

lemma DetectVersion_cases:
  "(\<exists>err. fst (probe d) = Inl err \<and> DetectVersion lib d = (([], Some err), snd (probe d)))
   \<or> (\<exists>response. fst (probe d) = Inr response \<and> sessionInvariant (snd (DetectVersion lib d))
        \<and> (variant (snd (DetectVersion lib d)) = VariantUnknown
             \<and> fst (DetectVersion lib d) = (''unknown'', Some (ErrUnrecognizedDevice response))
            \<or> variant (snd (DetectVersion lib d)) \<noteq> VariantUnknown
             \<and> snd (fst (DetectVersion lib d)) = None))"
proof (cases "probe d")
  case (Pair res d1)
  show ?thesis
  proof (cases res)
    case (Inl err)
    with Pair show ?thesis by (simp add: DetectVersion_def)
  next
    case (Inr response)
    obtain info ign d2 where x: "sendCommand d1 ''info'' = ((info, ign), d2)"
      by (metis surj_pair)
    obtain ver var where c: "classify lib response info = (ver, var)"
      by (metis surj_pair)
    from Pair Inr x c show ?thesis
      by (simp add: DetectVersion_def sessionInvariant_def Let_def)
  qed
qed

lemma probe_errors:
  "fst (probe d) = Inl err \<Longrightarrow> err = ErrNotConnected \<or> (\<exists>msg. err = ErrPort msg)"
  by (auto simp: probe_def split: option.splits prod.splits read_result.splits)

lemma Close_frame:
  "variant (snd (Close d)) = variant d \<and> hardwareInfo (snd (Close d)) = hardwareInfo d"
  by (simp add: Close_def split: option.splits)

lemma autoDetectPorts_invariant:
  "autoDetectPorts lib OpenPort ports = Inr d \<Longrightarrow> sessionInvariant d"
proof (induction ports)
  case Nil
  then show ?case by simp
next
  case (Cons port ports)
  show ?case
  proof (cases "Open port [] OpenPort")
    case (Inl err)
    with Cons show ?thesis by simp
  next
    case (Inr device)
    obtain ver e device1 where dv: "DetectVersion lib device = ((ver, e), device1)"
      by (metis surj_pair)
    show ?thesis
    proof (cases e)
      case None
      with Cons.prems Inr dv have "d = device1" by simp
      moreover have "sessionInvariant device1"
        using DetectVersion_cases [of device lib] dv None by auto
      ultimately show ?thesis by simp
    next
      case (Some err)
      with Cons.prems Inr dv have "autoDetectPorts lib OpenPort ports = Inr d"
        by (simp split: prod.splits)
      with Cons.IH show ?thesis by simp
    qed
  qed
qed

text \<open>
  Claim C10. The invariant \<open>hardwareInfo = getHardwareInfo variant\<close> holds after every
  operation that assigns either field. \<^verbatim>\<open>Open\<close> establishes it with the variant
  Unknown, \<^verbatim>\<open>OpenWithVariant\<close> with the forced variant, and a device returned by
  \<^verbatim>\<open>AutoDetect\<close> satisfies it. \<^verbatim>\<open>DetectVersion\<close> preserves it on every path; on
  its success path the invariant holds for the resolved variant, which is not Unknown, and
  on its unrecognized-device path the device is left at the variant Unknown with the
  default capability record, whatever it held before the call. \<^verbatim>\<open>SetSweepConfig\<close>,
  \<^verbatim>\<open>RunSweep\<close>, \<^verbatim>\<open>GetInfo\<close>, \<^verbatim>\<open>Close\<close>, \<^verbatim>\<open>SetPortHandle\<close> and the
  calibration stubs change neither field.
\<close>

theorem session_invariant_maintained:
  "(Open port custom OpenPort = Inr d0 \<longrightarrow> variant d0 = VariantUnknown \<and> sessionInvariant d0)
   \<and> (OpenWithVariant port v OpenPort = Inr d0 \<longrightarrow> variant d0 = v \<and> sessionInvariant d0)
   \<and> (AutoDetect lib osOpen OpenPort = Inr d0 \<longrightarrow> sessionInvariant d0)
   \<and> (sessionInvariant d \<longrightarrow> sessionInvariant (snd (DetectVersion lib d)))
   \<and> (snd (fst (DetectVersion lib d)) = None \<longrightarrow>
        sessionInvariant (snd (DetectVersion lib d))
        \<and> variant (snd (DetectVersion lib d)) \<noteq> VariantUnknown)
   \<and> (snd (fst (DetectVersion lib d)) = Some (ErrUnrecognizedDevice r) \<longrightarrow>
        variant (snd (DetectVersion lib d)) = VariantUnknown
        \<and> hardwareInfo (snd (DetectVersion lib d)) = getHardwareInfo VariantUnknown)
   \<and> variant (snd (SetSweepConfig d s e p)) = variant d
   \<and> hardwareInfo (snd (SetSweepConfig d s e p)) = hardwareInfo d
   \<and> variant (snd (RunSweep lib d)) = variant d
   \<and> hardwareInfo (snd (RunSweep lib d)) = hardwareInfo d
   \<and> variant (snd (GetInfo lib d)) = variant d
   \<and> hardwareInfo (snd (GetInfo lib d)) = hardwareInfo d
   \<and> variant (snd (Close d)) = variant d
   \<and> hardwareInfo (snd (Close d)) = hardwareInfo d
   \<and> variant (SetPortHandle d sp) = variant d
   \<and> hardwareInfo (SetPortHandle d sp) = hardwareInfo d
   \<and> snd (GetCalibration d) = d
   \<and> snd (SetCalibration d) = d
   \<and> snd (SaveCalibration d slot) = d
   \<and> snd (LoadCalibration d slot) = d"
proof -
  have op: "Open port custom OpenPort = Inr d0 \<longrightarrow> variant d0 = VariantUnknown \<and> sessionInvariant d0"
    using Open_establishes by blast
  have ow: "OpenWithVariant port v OpenPort = Inr d0 \<longrightarrow> variant d0 = v \<and> sessionInvariant d0"
    using OpenWithVariant_establishes by blast
  have au: "AutoDetect lib osOpen OpenPort = Inr d0 \<longrightarrow> sessionInvariant d0"
    by (auto simp: AutoDetect_def split: sum.splits dest: autoDetectPorts_invariant)
  have keep: "sessionInvariant d \<longrightarrow> sessionInvariant (snd (DetectVersion lib d))"
    using DetectVersion_cases [of d lib] probe_frame [of d]
    by (auto simp: sessionInvariant_def)
  have succ: "snd (fst (DetectVersion lib d)) = None \<longrightarrow>
        sessionInvariant (snd (DetectVersion lib d))
        \<and> variant (snd (DetectVersion lib d)) \<noteq> VariantUnknown"
    using DetectVersion_cases [of d lib] by auto
  have unrec: "snd (fst (DetectVersion lib d)) = Some (ErrUnrecognizedDevice r) \<longrightarrow>
        variant (snd (DetectVersion lib d)) = VariantUnknown
        \<and> hardwareInfo (snd (DetectVersion lib d)) = getHardwareInfo VariantUnknown"
    using DetectVersion_cases [of d lib] probe_errors [of d]
    by (auto simp: sessionInvariant_def)
  have stubs: "variant (SetPortHandle d sp) = variant d"
    "hardwareInfo (SetPortHandle d sp) = hardwareInfo d"
    "snd (GetCalibration d) = d"
    "snd (SetCalibration d) = d" "snd (SaveCalibration d slot) = d"
    "snd (LoadCalibration d slot) = d"
    by (simp_all add: SetPortHandle_def GetCalibration_def SetCalibration_def
        SaveCalibration_def LoadCalibration_def)
  show ?thesis
    using op ow au keep succ unrec stubs SetSweepConfig_frame [of d s e p]
      RunSweep_frame [of lib d] GetInfo_frame [of lib d] Close_frame [of d]
    by simp
qed

text \<open>
  Evaluation of C10: \<^verbatim>\<open>Open\<close> with a custom port, \<^verbatim>\<open>OpenWithVariant\<close> forcing
  V2Plus4, \<^verbatim>\<open>AutoDetect\<close> and \<^verbatim>\<open>DetectVersion\<close> on a port that answers like a
  V2 Plus4, and \<^verbatim>\<open>DetectVersion\<close> on a V1 session whose port answers the probe with
  \<^verbatim>\<open>"xx"\<close>: the session ends at the variant Unknown with the default record.
\<close>

theorem session_invariant_maintained_witness:
  "Open ''COM1'' [Some (scriptedPort [])] (\<lambda>n. Inl (ErrPort ''no such port''))
     = Inr ((newDevice ''COM1'')\<lparr>portHandle := Some (scriptedPort []),
              variant := VariantUnknown, hardwareInfo := getHardwareInfo VariantUnknown\<rparr>)
   \<and> sessionInvariant ((newDevice ''COM1'')\<lparr>portHandle := Some (scriptedPort []),
              variant := VariantUnknown, hardwareInfo := getHardwareInfo VariantUnknown\<rparr>)
   \<and> OpenWithVariant ''COM1'' VariantV2Plus4 (\<lambda>n. Inr (scriptedPort []))
     = Inr ((deviceOn VariantV2Plus4 (scriptedPort []))
          \<lparr>config := Some \<lparr>Name = ''COM1'', Baud = 9600, ReadTimeout = 5000000000, Size = 8,
                            Parity = ParityNone, StopBits = Stop1\<rparr>\<rparr>)
   \<and> sessionInvariant ((deviceOn VariantV2Plus4 (scriptedPort []))
          \<lparr>config := Some \<lparr>Name = ''COM1'', Baud = 9600, ReadTimeout = 5000000000, Size = 8,
                            Parity = ParityNone, StopBits = Stop1\<rparr>\<rparr>)
   \<and> (\<exists>d0. AutoDetect exampleLib (\<lambda>path. path = ''//./COM3'')
              (\<lambda>n. Inr (scriptedPort [ReadOk [], ReadOk ''2>'', ReadOk [], ReadOk ''NanoVNA V2 Plus4 ch> '']))
            = Inr d0 \<and> variant d0 = VariantV2Plus4 \<and> sessionInvariant d0)
   \<and> snd (fst (DetectVersion exampleLib (deviceOn VariantUnknown
         (scriptedPort [ReadOk [], ReadOk ''2>'', ReadOk [], ReadOk ''NanoVNA V2 Plus4 ch> ''])))) = None
   \<and> variant (snd (DetectVersion exampleLib (deviceOn VariantUnknown
         (scriptedPort [ReadOk [], ReadOk ''2>'', ReadOk [], ReadOk ''NanoVNA V2 Plus4 ch> ''])))) = VariantV2Plus4
   \<and> sessionInvariant (snd (DetectVersion exampleLib (deviceOn VariantUnknown
         (scriptedPort [ReadOk [], ReadOk ''2>'', ReadOk [], ReadOk ''NanoVNA V2 Plus4 ch> '']))))
   \<and> sessionInvariant (deviceOn VariantV1 (scriptedPort [ReadOk [], ReadOk ''xx'']))
   \<and> snd (fst (DetectVersion exampleLib (deviceOn VariantV1 (scriptedPort [ReadOk [], ReadOk ''xx'']))))
       = Some (ErrUnrecognizedDevice ''xx'')
   \<and> variant (snd (DetectVersion exampleLib (deviceOn VariantV1 (scriptedPort [ReadOk [], ReadOk ''xx''])))) = VariantUnknown
   \<and> hardwareInfo (snd (DetectVersion exampleLib (deviceOn VariantV1 (scriptedPort [ReadOk [], ReadOk ''xx'']))))
       = getHardwareInfo VariantUnknown
   \<and> sessionInvariant (snd (DetectVersion exampleLib (deviceOn VariantV1 (scriptedPort [ReadOk [], ReadOk ''xx'']))))"
proof -
  let ?v2 = "deviceOn VariantUnknown
         (scriptedPort [ReadOk [], ReadOk ''2>'', ReadOk [], ReadOk ''NanoVNA V2 Plus4 ch> ''])"
  let ?xx = "deviceOn VariantV1 (scriptedPort [ReadOk [], ReadOk ''xx''])"
  let ?open = "(newDevice ''COM1'')\<lparr>portHandle := Some (scriptedPort []),
              variant := VariantUnknown, hardwareInfo := getHardwareInfo VariantUnknown\<rparr>"
  let ?forced = "(deviceOn VariantV2Plus4 (scriptedPort []))
          \<lparr>config := Some \<lparr>Name = ''COM1'', Baud = 9600, ReadTimeout = 5000000000, Size = 8,
                            Parity = ParityNone, StopBits = Stop1\<rparr>\<rparr>"
  have o: "Open ''COM1'' [Some (scriptedPort [])] (\<lambda>n. Inl (ErrPort ''no such port'')) = Inr ?open"
    by (simp add: Open_def)
  have w: "OpenWithVariant ''COM1'' VariantV2Plus4 (\<lambda>n. Inr (scriptedPort [])) = Inr ?forced"
    by (simp add: OpenWithVariant_def Open_def newDevice_def deviceOn_def)
  have dv2: "snd (fst (DetectVersion exampleLib ?v2)) = None" "variant (snd (DetectVersion exampleLib ?v2)) = VariantV2Plus4"
    by (simp_all add: DetectVersion_def probe_def classify_def deviceOn_def scriptedPort_def
        sendCommand_def portRead_def portWrite_def readLoop.simps maxAttempts_def
        exampleLib_def asciiToLower_def asciiLowerByte_def)
  have dxx: "snd (fst (DetectVersion exampleLib ?xx)) = Some (ErrUnrecognizedDevice ''xx'')"
    by (simp add: DetectVersion_def probe_def classify_def deviceOn_def scriptedPort_def
        sendCommand_def portRead_def portWrite_def readLoop.simps maxAttempts_def
        exampleLib_def asciiToLower_def asciiLowerByte_def)
  have ixx: "sessionInvariant ?xx"
    by (simp add: sessionInvariant_def deviceOn_def)
  have au: "\<exists>d0. AutoDetect exampleLib (\<lambda>path. path = ''//./COM3'')
              (\<lambda>n. Inr (scriptedPort [ReadOk [], ReadOk ''2>'', ReadOk [], ReadOk ''NanoVNA V2 Plus4 ch> '']))
            = Inr d0 \<and> variant d0 = VariantV2Plus4"
    by (simp add: AutoDetect_def ListDevices_def Itoa_eval upt_rec [of _ "numeral k" for k]
        Open_def newDevice_def
        DetectVersion_def probe_def classify_def scriptedPort_def
        sendCommand_def portRead_def portWrite_def readLoop.simps maxAttempts_def
        exampleLib_def asciiToLower_def asciiLowerByte_def)
  then obtain d0 where d0: "AutoDetect exampleLib (\<lambda>path. path = ''//./COM3'')
              (\<lambda>n. Inr (scriptedPort [ReadOk [], ReadOk ''2>'', ReadOk [], ReadOk ''NanoVNA V2 Plus4 ch> '']))
            = Inr d0" "variant d0 = VariantV2Plus4" by blast
  note t1 = session_invariant_maintained [of "''COM1''" "[Some (scriptedPort [])]"
      "\<lambda>n. Inl (ErrPort ''no such port'')" ?open]
  note t2 = session_invariant_maintained [of "''COM1''" _ "\<lambda>n. Inr (scriptedPort [])" ?forced
      VariantV2Plus4]
  note t3 = session_invariant_maintained [where d0 = d0 and osOpen = "\<lambda>path. path = ''//./COM3''"
      and OpenPort = "\<lambda>n. Inr (scriptedPort [ReadOk [], ReadOk ''2>'', ReadOk [], ReadOk ''NanoVNA V2 Plus4 ch> ''])"]
  note t4 = session_invariant_maintained [where d = ?v2]
  note t5 = session_invariant_maintained [where d = ?xx and r = "''xx''"]
  have a1: "sessionInvariant ?open" using t1 o by simp
  have a2: "sessionInvariant ?forced" using t2 w by simp
  have a3: "sessionInvariant d0" using t3 d0 by simp
  have a4: "sessionInvariant (snd (DetectVersion exampleLib ?v2))" using t4 dv2 by simp
  have a5: "variant (snd (DetectVersion exampleLib ?xx)) = VariantUnknown"
    "hardwareInfo (snd (DetectVersion exampleLib ?xx)) = getHardwareInfo VariantUnknown"
    "sessionInvariant (snd (DetectVersion exampleLib ?xx))"
    using t5 dxx ixx by simp_all
  show ?thesis
    using o w d0 a1 a2 a3 a4 a5 dv2 dxx ixx by (simp del: getHardwareInfo.simps)
qed

section \<open>The read loop of the command channel\<close>


lemma readLoop_other_error:
  assumes "attempts < maxAttempts" and "rd p (rpos p) = ReadErr msg" and "\<not> Contains msg ''timeout''"
  shows "readLoop attempts response p = ((response, Some (ErrPort msg)), p\<lparr>rpos := Suc (rpos p)\<rparr>)"
  using assms by (subst readLoop.simps) (simp add: portRead_def)





text \<open>
  Claim C3 (evaluation of the code). The loop compares each chunk with the fixed text
  \<^verbatim>\<open>"ch>"\<close>; it reads neither \<^verbatim>\<open>PromptPattern\<close> nor the accumulated text. On a V2
  device, whose prompt marker is \<^verbatim>\<open>"2>"\<close>, a first chunk \<^verbatim>\<open>"v2 2> "\<close> does not end
  the loop: the port is read eleven times in all (the draining read and all ten
  attempts). On a V1 device the same exchange with \<^verbatim>\<open>"v1 ch> "\<close> ends after the first
  attempt. A marker that arrives split over two chunks does not end the loop either.
\<close>

theorem sendCommand_fixed_prompt:
  "PromptPattern (CommandSet (hardwareInfo (deviceOn VariantV2 (silentAfter ''v2 2> '')))) = ''2>''
   \<and> fst (sendCommand (deviceOn VariantV2 (silentAfter ''v2 2> '')) ''info'') = (''v2 2> '', None)
   \<and> map_option rpos (portHandle (snd (sendCommand (deviceOn VariantV2 (silentAfter ''v2 2> '')) ''info'')))
       = Some 11
   \<and> PromptPattern (CommandSet (hardwareInfo (deviceOn VariantV1 (silentAfter ''v1 ch> '')))) = ''ch>''
   \<and> fst (sendCommand (deviceOn VariantV1 (silentAfter ''v1 ch> '')) ''info'') = (''v1 ch> '', None)
   \<and> map_option rpos (portHandle (snd (sendCommand (deviceOn VariantV1 (silentAfter ''v1 ch> '')) ''info'')))
       = Some 2
   \<and> fst (sendCommand (deviceOn VariantV1
             (scriptedPort [ReadOk [], ReadOk ''v1 c'', ReadOk ''h> '', ReadOk ''stale''])) ''info'')
       = (''v1 ch> stale'', None)"
  by (simp add: deviceOn_def silentAfter_def scriptedPort_def sendCommand_def portRead_def
      portWrite_def readLoop.simps maxAttempts_def)



section \<open>Classification order in variant detection\<close>

lemma DetectVersion_classified:
  assumes "fst (probe d) = Inr response"
    and "fst (fst (sendCommand (snd (probe d)) ''info'')) = info"
  shows "variant (snd (DetectVersion lib d)) = snd (classify lib response info)"
proof -
  obtain d1 where p: "probe d = (Inr response, d1)"
    using assms(1) by (cases "probe d") auto
  obtain ign d2 where x: "sendCommand d1 ''info'' = ((info, ign), d2)"
    using assms(2) p by (cases "sendCommand d1 ''info''") auto
  obtain ver var where c: "classify lib response info = (ver, var)"
    by (metis surj_pair)
  show ?thesis
    by (simp add: DetectVersion_def p x c Let_def)
qed

text \<open>
  Claim C6, as amended. Let \<open>response\<close> be the probe response and \<open>info\<close> the info
  text of a run of \<^verbatim>\<open>DetectVersion\<close>. If the response is a V2-family one (it has none
  of the three \<^verbatim>\<open>ch>\<close> prefixes tested before, and it starts with \<^verbatim>\<open>"2"\<close> or
  contains \<^verbatim>\<open>"2>"\<close>) and the lower-cased info text contains both \<^verbatim>\<open>"plus"\<close> and
  \<^verbatim>\<open>"plus4"\<close>, the variant is V2Plus4. If the response starts with \<^verbatim>\<open>"ch> "\<close> and
  the lower-cased info text contains \<^verbatim>\<open>"litevna"\<close> and does not contain
  \<^verbatim>\<open>"tinysa"\<close>, the variant is LiteVNA.
\<close>

theorem DetectVersion_specificity:
  assumes "fst (probe d) = Inr response"
    and "fst (fst (sendCommand (snd (probe d)) ''info'')) = info"
  shows "(\<not> HasPrefix response ''ch> ''
          \<and> \<not> HasPrefix response ([CHR 0x0D, CHR 0x0A] @ ''ch> '')
          \<and> \<not> HasPrefix response ([CHR 0x0D, CHR 0x0A] @ ''?'' @ [CHR 0x0D, CHR 0x0A] @ ''ch> '')
          \<and> (HasPrefix response ''2'' \<or> Contains response ''2>'')
          \<and> Contains (ToLower lib info) ''plus'' \<and> Contains (ToLower lib info) ''plus4''
          \<longrightarrow> variant (snd (DetectVersion lib d)) = VariantV2Plus4)
       \<and> (HasPrefix response ''ch> '' \<and> Contains (ToLower lib info) ''litevna''
          \<and> \<not> Contains (ToLower lib info) ''tinysa''
          \<longrightarrow> variant (snd (DetectVersion lib d)) = VariantLiteVNA)"
  unfolding DetectVersion_classified [OF assms]
  by (simp add: classify_def)

text \<open>
  The claim as stated fails: \<^verbatim>\<open>"tinysa"\<close> is tested before \<^verbatim>\<open>"litevna"\<close>. With the
  probe response \<^verbatim>\<open>"ch> "\<close> and an info text that contains both words, the variant
  is TinySA.
\<close>

theorem DetectVersion_litevna_counterexample:
  "fst (probe (deviceOn VariantUnknown
      (scriptedPort [ReadOk [], ReadOk ''ch> '', ReadOk [], ReadOk ''TinySA LiteVNA ch> '']))) = Inr ''ch> ''
   \<and> fst (fst (sendCommand (snd (probe (deviceOn VariantUnknown
      (scriptedPort [ReadOk [], ReadOk ''ch> '', ReadOk [], ReadOk ''TinySA LiteVNA ch> '']))))
        ''info'')) = ''TinySA LiteVNA ch> ''
   \<and> HasPrefix ''ch> '' ''ch> ''
   \<and> Contains (ToLower exampleLib ''TinySA LiteVNA ch> '') ''litevna''
   \<and> variant (snd (DetectVersion exampleLib (deviceOn VariantUnknown
      (scriptedPort [ReadOk [], ReadOk ''ch> '', ReadOk [], ReadOk ''TinySA LiteVNA ch> ''])))) = VariantTinysa
   \<and> variant (snd (DetectVersion exampleLib (deviceOn VariantUnknown
      (scriptedPort [ReadOk [], ReadOk ''ch> '', ReadOk [], ReadOk ''TinySA LiteVNA ch> ''])))) \<noteq> VariantLiteVNA"
proof -
  let ?c = "deviceOn VariantUnknown
      (scriptedPort [ReadOk [], ReadOk ''ch> '', ReadOk [], ReadOk ''TinySA LiteVNA ch> ''])"
  have p: "fst (probe ?c) = Inr ''ch> ''"
    and i: "fst (fst (sendCommand (snd (probe ?c)) ''info'')) = ''TinySA LiteVNA ch> ''"
    by (simp_all add: probe_def deviceOn_def scriptedPort_def
      sendCommand_def portRead_def portWrite_def readLoop.simps maxAttempts_def)
  have low: "ToLower exampleLib ''TinySA LiteVNA ch> '' = ''tinysa litevna ch> ''"
    by (simp add: exampleLib_def asciiToLower_def asciiLowerByte_def)
  have cl: "snd (classify exampleLib ''ch> '' ''TinySA LiteVNA ch> '') = VariantTinysa"
    by (simp add: classify_def low)
  show ?thesis
    using DetectVersion_classified [OF p i] p i cl by (simp add: low)
qed

text \<open>
  Evaluation of the amended C6 on a port that answers like a V2 Plus4 and on one that
  answers like a LiteVNA.
\<close>

theorem DetectVersion_specificity_witness:
  "fst (probe (deviceOn VariantUnknown
      (scriptedPort [ReadOk [], ReadOk ''2>'', ReadOk [], ReadOk ''NanoVNA V2 Plus4 ch> '']))) = Inr ''2>''
   \<and> Contains (ToLower exampleLib ''NanoVNA V2 Plus4 ch> '') ''plus''
   \<and> Contains (ToLower exampleLib ''NanoVNA V2 Plus4 ch> '') ''plus4''
   \<and> variant (snd (DetectVersion exampleLib (deviceOn VariantUnknown
      (scriptedPort [ReadOk [], ReadOk ''2>'', ReadOk [], ReadOk ''NanoVNA V2 Plus4 ch> ''])))) = VariantV2Plus4
   \<and> fst (probe (deviceOn VariantUnknown
      (scriptedPort [ReadOk [], ReadOk ''ch> '', ReadOk [], ReadOk ''LiteVNA64 ch> '']))) = Inr ''ch> ''
   \<and> Contains (ToLower exampleLib ''LiteVNA64 ch> '') ''litevna''
   \<and> \<not> Contains (ToLower exampleLib ''LiteVNA64 ch> '') ''tinysa''
   \<and> variant (snd (DetectVersion exampleLib (deviceOn VariantUnknown
      (scriptedPort [ReadOk [], ReadOk ''ch> '', ReadOk [], ReadOk ''LiteVNA64 ch> ''])))) = VariantLiteVNA"
proof -
  let ?a = "deviceOn VariantUnknown
      (scriptedPort [ReadOk [], ReadOk ''2>'', ReadOk [], ReadOk ''NanoVNA V2 Plus4 ch> ''])"
  let ?b = "deviceOn VariantUnknown
      (scriptedPort [ReadOk [], ReadOk ''ch> '', ReadOk [], ReadOk ''LiteVNA64 ch> ''])"
  have pa: "fst (probe ?a) = Inr ''2>''"
    and ia: "fst (fst (sendCommand (snd (probe ?a)) ''info'')) = ''NanoVNA V2 Plus4 ch> ''"
    and pb: "fst (probe ?b) = Inr ''ch> ''"
    and ib: "fst (fst (sendCommand (snd (probe ?b)) ''info'')) = ''LiteVNA64 ch> ''"
    by (simp_all add: probe_def deviceOn_def scriptedPort_def
      sendCommand_def portRead_def portWrite_def readLoop.simps maxAttempts_def)
  have low: "Contains (ToLower exampleLib ''NanoVNA V2 Plus4 ch> '') ''plus''"
    "Contains (ToLower exampleLib ''NanoVNA V2 Plus4 ch> '') ''plus4''"
    "Contains (ToLower exampleLib ''LiteVNA64 ch> '') ''litevna''"
    "\<not> Contains (ToLower exampleLib ''LiteVNA64 ch> '') ''tinysa''"
    by (simp_all add: exampleLib_def asciiToLower_def asciiLowerByte_def)
  show ?thesis
    using DetectVersion_specificity [OF pa ia] DetectVersion_specificity [OF pb ib] pa pb low
    by simp
qed

section \<open>Sweep results\<close>

lemma padZeros_replicate_aux:
  "n - length xs = k \<Longrightarrow> padZeros xs n = xs @ replicate k (Complex 0 0)"
proof (induction k arbitrary: xs)
  case 0
  then have "\<not> length xs < n" by simp
  then show ?case by (subst padZeros.simps) simp
next
  case (Suc k)
  then have lt: "length xs < n" and k: "n - length (xs @ [Complex 0 0]) = k"
    by simp_all
  have "padZeros xs n = padZeros (xs @ [Complex 0 0]) n"
    using lt by (subst padZeros.simps) simp
  also have "\<dots> = (xs @ [Complex 0 0]) @ replicate k (Complex 0 0)"
    by (rule Suc.IH [OF k])
  finally show ?case by simp
qed

lemma padZeros_replicate:
  "padZeros xs n = xs @ replicate (n - length xs) (Complex 0 0)"
  by (rule padZeros_replicate_aux [OF refl])

lemma length_padZeros: "length (padZeros xs n) = max (length xs) n"
  by (simp add: padZeros_replicate)

lemma RunSweep_exchanges:
  assumes "sendCommand d (FreqCommand (CommandSet (hardwareInfo d))) = ((freqResp, None), d1)"
    and "sendCommand d1 (Sprintf (DataCommand (CommandSet (hardwareInfo d1))) [0])
           = ((s11Resp, None), d2)"
    and "sendCommand d2 (Sprintf (DataCommand (CommandSet (hardwareInfo d2))) [1])
           = ((s21Resp, e3), d3)"
    and "freqs = parseFrequencies lib (FreqCommand (CommandSet (hardwareInfo d)))
                   (PromptPattern (CommandSet (hardwareInfo d1))) (Split freqResp (CHR 0x0A)) []"
    and "s11 = parseSamples lib (PromptPattern (CommandSet (hardwareInfo d2)))
                 (Split s11Resp (CHR 0x0A)) []"
    and "s21 = (if HasS21 (Capabilities (hardwareInfo d2)) \<and> IsPortSupported d2 ''S21'' then
                  (if e3 = None then
                     parseSamples lib (PromptPattern (CommandSet (hardwareInfo d3)))
                       (Split s21Resp (CHR 0x0A)) []
                   else map (\<lambda>x. Complex 0 0) s11)
                else [])"
    and "minLen = (if length s11 < length freqs then length s11 else length freqs)"
  shows "fst (RunSweep lib d) =
           (if length freqs = 0 \<or> length s11 = 0 then Inl ErrNoData
            else Inr \<lparr>Frequencies = take minLen freqs, S11 = take minLen s11,
                      S21 = (if minLen \<le> length (padZeros s21 (length s11))
                             then take minLen (padZeros s21 (length s11))
                             else padZeros (padZeros s21 (length s11)) minLen)\<rparr>)"
  using assms
  by (simp add: RunSweep_def Let_def del: Sprintf.simps split: option.split)

lemma RunSweep_failed_exchange:
  assumes "sendCommand d (FreqCommand (CommandSet (hardwareInfo d))) = ((freqResp, e1), d1)"
    and "sendCommand d1 (Sprintf (DataCommand (CommandSet (hardwareInfo d1))) [0])
           = ((s11Resp, e2), d2)"
  shows "e1 = Some err \<Longrightarrow> fst (RunSweep lib d) = Inl (ErrFrequencies err)"
    and "e1 = None \<Longrightarrow> e2 = Some err \<Longrightarrow> fst (RunSweep lib d) = Inl (ErrS11 err)"
  using assms
  by (simp_all add: RunSweep_def Let_def del: Sprintf.simps)

text \<open>
  Claim C2, as amended. Name the outcomes of the first two exchanges of \<^verbatim>\<open>RunSweep\<close>
  (the frequency query and the data query for port 0), and let \<open>freqs\<close> and \<open>s11\<close> be
  the frequencies and the S11 samples parsed from their responses. Whenever
  \<^verbatim>\<open>RunSweep\<close> returns data, both exchanges succeeded, neither parsed sequence is
  empty, and the three result sequences all have the length
  \<open>min (length freqs) (length s11)\<close>, the frequencies and the S11 samples being the
  parsed ones cut to that length. When both exchanges succeed and a parsed sequence is
  empty, \<^verbatim>\<open>RunSweep\<close> fails with the no-data error; when neither is empty it returns
  data. When one of the two exchanges fails, \<^verbatim>\<open>RunSweep\<close> returns that failure,
  wrapped, before it looks at any parsed sequence: the no-data error is not returned
  then, whatever was parsed.
\<close>

theorem RunSweep_lengths:
  assumes "sendCommand d (FreqCommand (CommandSet (hardwareInfo d))) = ((freqResp, e1), d1)"
    and "sendCommand d1 (Sprintf (DataCommand (CommandSet (hardwareInfo d1))) [0])
           = ((s11Resp, e2), d2)"
    and "freqs = parseFrequencies lib (FreqCommand (CommandSet (hardwareInfo d)))
                   (PromptPattern (CommandSet (hardwareInfo d1))) (Split freqResp (CHR 0x0A)) []"
    and "s11 = parseSamples lib (PromptPattern (CommandSet (hardwareInfo d2)))
                 (Split s11Resp (CHR 0x0A)) []"
  shows "(\<forall>data. fst (RunSweep lib d) = Inr data \<longrightarrow>
            e1 = None \<and> e2 = None \<and> freqs \<noteq> [] \<and> s11 \<noteq> []
            \<and> Frequencies data = take (min (length freqs) (length s11)) freqs
            \<and> S11 data = take (min (length freqs) (length s11)) s11
            \<and> length (Frequencies data) = min (length freqs) (length s11)
            \<and> length (S11 data) = min (length freqs) (length s11)
            \<and> length (S21 data) = min (length freqs) (length s11))
         \<and> (e1 = None \<and> e2 = None \<and> (freqs = [] \<or> s11 = []) \<longrightarrow>
              fst (RunSweep lib d) = Inl ErrNoData)
         \<and> (e1 = None \<and> e2 = None \<and> freqs \<noteq> [] \<and> s11 \<noteq> [] \<longrightarrow>
              (\<exists>data. fst (RunSweep lib d) = Inr data))
         \<and> (\<forall>err. e1 = Some err \<longrightarrow>
              fst (RunSweep lib d) = Inl (ErrFrequencies err))
         \<and> (\<forall>err. e1 = None \<and> e2 = Some err \<longrightarrow>
              fst (RunSweep lib d) = Inl (ErrS11 err))"
proof (cases "e1 = None \<and> e2 = None")
  case False
  then consider err where "e1 = Some err" | err where "e1 = None" "e2 = Some err"
    by (cases e1; cases e2) auto
  then show ?thesis
  proof cases
    case 1
    from RunSweep_failed_exchange(1) [OF assms(1,2) 1, of lib] 1
    show ?thesis by simp
  next
    case 2
    from RunSweep_failed_exchange(2) [OF assms(1,2) 2, of lib] 2
    show ?thesis by simp
  qed
next
  case True
  obtain s21Resp e3 d3 where x3:
    "sendCommand d2 (Sprintf (DataCommand (CommandSet (hardwareInfo d2))) [1]) = ((s21Resp, e3), d3)"
    by (metis surj_pair)
  define s21 where "s21 = (if HasS21 (Capabilities (hardwareInfo d2)) \<and> IsPortSupported d2 ''S21'' then
                  (if e3 = None then
                     parseSamples lib (PromptPattern (CommandSet (hardwareInfo d3)))
                       (Split s21Resp (CHR 0x0A)) []
                   else map (\<lambda>x. Complex 0 0) s11)
                else [])"
  define minLen where "minLen = (if length s11 < length freqs then length s11 else length freqs)"
  have ml: "minLen = min (length freqs) (length s11)"
    by (simp add: minLen_def min_def)
  have eq: "fst (RunSweep lib d) =
           (if length freqs = 0 \<or> length s11 = 0 then Inl ErrNoData
            else Inr \<lparr>Frequencies = take minLen freqs, S11 = take minLen s11,
                      S21 = (if minLen \<le> length (padZeros s21 (length s11))
                             then take minLen (padZeros s21 (length s11))
                             else padZeros (padZeros s21 (length s11)) minLen)\<rparr>)"
    using True
    by (intro RunSweep_exchanges [OF _ _ x3 assms(3,4) s21_def minLen_def])
       (simp_all add: assms(1,2))
  have l21: "length (if minLen \<le> length (padZeros s21 (length s11))
                     then take minLen (padZeros s21 (length s11))
                     else padZeros (padZeros s21 (length s11)) minLen) = minLen"
  proof -
    have "minLen \<le> length (padZeros s21 (length s11))"
      unfolding ml length_padZeros by simp
    then show ?thesis by simp
  qed
  show ?thesis
    using True l21 unfolding eq ml by auto
qed

text \<open>
  The claim as stated fails: an empty parsed sequence does not always give the no-data
  error. On a V1 device whose port answers the frequency query with the bare prompt
  \<^verbatim>\<open>"ch> "\<close> and then times out, no frequency is parsed, and \<^verbatim>\<open>RunSweep\<close> returns
  the failure of the S11 exchange: the check for empty sequences comes after both
  exchanges and is never reached.
\<close>

theorem RunSweep_noData_counterexample:
  "fst (fst (sendCommand (deviceOn VariantV1 (scriptedPort [ReadOk [], ReadOk ''ch> '']))
       (FreqCommand (CommandSet (hardwareInfo (deviceOn VariantV1 (scriptedPort [ReadOk [], ReadOk ''ch> ''])))))))
     = ''ch> ''
   \<and> parseFrequencies exampleLib (FreqCommand (CommandSet (getHardwareInfo VariantV1)))
       (PromptPattern (CommandSet (getHardwareInfo VariantV1))) (Split ''ch> '' (CHR 0x0A)) [] = []
   \<and> fst (RunSweep exampleLib (deviceOn VariantV1 (scriptedPort [ReadOk [], ReadOk ''ch> ''])))
       = Inl (ErrS11 (ErrPort ''timeout''))
   \<and> fst (RunSweep exampleLib (deviceOn VariantV1 (scriptedPort [ReadOk [], ReadOk ''ch> ''])))
       \<noteq> Inl ErrNoData"
proof -
  let ?d = "deviceOn VariantV1 (scriptedPort [ReadOk [], ReadOk ''ch> ''])"
  obtain fd e1 d1 where x1:
    "sendCommand ?d (FreqCommand (CommandSet (hardwareInfo ?d))) = ((fd, e1), d1)"
    by (metis surj_pair)
  obtain sd e2 d2 where x2:
    "sendCommand d1 (Sprintf (DataCommand (CommandSet (hardwareInfo d1))) [0]) = ((sd, e2), d2)"
    by (metis surj_pair)
  have ex: "fd = ''ch> '' \<and> e1 = None \<and> e2 = Some (ErrPort ''timeout'')"
    using x1 x2
    by (auto simp: deviceOn_def scriptedPort_def sendCommand_def portRead_def portWrite_def
        readLoop.simps maxAttempts_def simp del: Sprintf.simps)
  have pf: "parseFrequencies exampleLib (FreqCommand (CommandSet (getHardwareInfo VariantV1)))
       (PromptPattern (CommandSet (getHardwareInfo VariantV1))) (Split ''ch> '' (CHR 0x0A)) [] = []"
    by (simp add: exampleLib_def asciiTrimSpace_def asciiSpace_def)
  have r: "fst (RunSweep exampleLib ?d) = Inl (ErrS11 (ErrPort ''timeout''))"
    using RunSweep_failed_exchange(2) [OF x1 x2, of "ErrPort ''timeout''" exampleLib] ex by simp
  show ?thesis
    using ex pf r by (simp add: x1)
qed

text \<open>
  Claim C9. On a device whose capability record has \<open>HasS21\<close> false, every entry of
  the S21 sequence of a successful \<^verbatim>\<open>RunSweep\<close> is \<^verbatim>\<open>complex(0, 0)\<close>, and the
  sequence is as long as the S11 sequence.
\<close>

theorem RunSweep_no_S21:
  assumes "\<not> HasS21 (Capabilities (hardwareInfo d))"
    and "fst (RunSweep lib d) = Inr data"
  shows "(\<forall>z \<in> set (S21 data). z = Complex 0 0)
         \<and> S21 data = replicate (length (S11 data)) (Complex 0 0)"
proof -
  obtain freqResp e1 d1 where x1:
    "sendCommand d (FreqCommand (CommandSet (hardwareInfo d))) = ((freqResp, e1), d1)"
    by (metis surj_pair)
  obtain s11Resp e2 d2 where x2:
    "sendCommand d1 (Sprintf (DataCommand (CommandSet (hardwareInfo d1))) [0]) = ((s11Resp, e2), d2)"
    by (metis surj_pair)
  obtain s21Resp e3 d3 where x3:
    "sendCommand d2 (Sprintf (DataCommand (CommandSet (hardwareInfo d2))) [1]) = ((s21Resp, e3), d3)"
    by (metis surj_pair)
  have ok: "e1 = None \<and> e2 = None"
    using RunSweep_failed_exchange(1) [OF x1 x2, of _ lib]
      RunSweep_failed_exchange(2) [OF x1 x2, of _ lib] assms(2)
    by (cases e1; cases e2) auto
  have hw: "hardwareInfo d2 = hardwareInfo d"
    using sendCommand_frame_eq(2) [OF x1] sendCommand_frame_eq(2) [OF x2] by simp
  define freqs where "freqs = parseFrequencies lib (FreqCommand (CommandSet (hardwareInfo d)))
                   (PromptPattern (CommandSet (hardwareInfo d1))) (Split freqResp (CHR 0x0A)) []"
  define s11 where "s11 = parseSamples lib (PromptPattern (CommandSet (hardwareInfo d2)))
                 (Split s11Resp (CHR 0x0A)) []"
  define minLen where "minLen = (if length s11 < length freqs then length s11 else length freqs)"
  have s21: "[] = (if HasS21 (Capabilities (hardwareInfo d2)) \<and> IsPortSupported d2 ''S21'' then
                  (if e3 = None then
                     parseSamples lib (PromptPattern (CommandSet (hardwareInfo d3)))
                       (Split s21Resp (CHR 0x0A)) []
                   else map (\<lambda>x. Complex 0 0) s11)
                else [])"
    using assms(1) hw by simp
  have eq: "fst (RunSweep lib d) =
           (if length freqs = 0 \<or> length s11 = 0 then Inl ErrNoData
            else Inr \<lparr>Frequencies = take minLen freqs, S11 = take minLen s11,
                      S21 = (if minLen \<le> length (padZeros [] (length s11))
                             then take minLen (padZeros [] (length s11))
                             else padZeros (padZeros [] (length s11)) minLen)\<rparr>)"
    using ok
    by (intro RunSweep_exchanges [OF _ _ x3 freqs_def s11_def s21 minLen_def])
       (simp_all add: x1 x2)
  have ml: "minLen \<le> length s11" by (simp add: minLen_def)
  from assms(2) have d: "data = \<lparr>Frequencies = take minLen freqs, S11 = take minLen s11,
                      S21 = (if minLen \<le> length (padZeros [] (length s11))
                             then take minLen (padZeros [] (length s11))
                             else padZeros (padZeros [] (length s11)) minLen)\<rparr>"
    unfolding eq by (simp split: if_splits)
  have "S21 data = replicate (length (S11 data)) (Complex 0 0)"
    using ml by (simp add: d padZeros_replicate min_def)
  then show ?thesis
    by (metis in_set_replicate)
qed

lemma sweep_exchanges:
  assumes "sendCommand (deviceOn VariantV1 (scriptedPort sweepReads))
             (FreqCommand (CommandSet (hardwareInfo (deviceOn VariantV1 (scriptedPort sweepReads)))))
             = ((freqResp, e1), d1)"
    and "sendCommand d1 (Sprintf (DataCommand (CommandSet (hardwareInfo d1))) [0]) = ((s11Resp, e2), d2)"
  shows "freqResp = ''frequencies'' @ crlf @ ''1000000'' @ crlf @ ''2000000'' @ crlf @ ''ch> ''
         \<and> e1 = None \<and> s11Resp = ''data 0'' @ crlf @ ''0.5 -0.2'' @ crlf @ ''ch> '' \<and> e2 = None
         \<and> hardwareInfo d1 = getHardwareInfo VariantV1 \<and> hardwareInfo d2 = getHardwareInfo VariantV1"
  using assms
  by (auto simp: deviceOn_def scriptedPort_def sweepReads_def sendCommand_def portRead_def portWrite_def
      readLoop.simps maxAttempts_def crlf_def simp del: Sprintf.simps)

lemma noData_exchanges:
  assumes "sendCommand (deviceOn VariantV1 (scriptedPort [ReadOk [], ReadOk ''ch> '', ReadOk [],
               ReadOk (''data 0'' @ crlf @ ''0.5 -0.2'' @ crlf @ ''ch> '')]))
             (FreqCommand (CommandSet (hardwareInfo (deviceOn VariantV1 (scriptedPort [ReadOk [], ReadOk ''ch> '', ReadOk [],
               ReadOk (''data 0'' @ crlf @ ''0.5 -0.2'' @ crlf @ ''ch> '')])))))
             = ((freqResp, e1), d1)"
    and "sendCommand d1 (Sprintf (DataCommand (CommandSet (hardwareInfo d1))) [0]) = ((s11Resp, e2), d2)"
  shows "freqResp = ''ch> ''
         \<and> e1 = None \<and> s11Resp = ''data 0'' @ crlf @ ''0.5 -0.2'' @ crlf @ ''ch> '' \<and> e2 = None
         \<and> hardwareInfo d1 = getHardwareInfo VariantV1 \<and> hardwareInfo d2 = getHardwareInfo VariantV1"
  using assms
  by (auto simp: deviceOn_def scriptedPort_def sendCommand_def portRead_def portWrite_def
      readLoop.simps maxAttempts_def crlf_def simp del: Sprintf.simps)

text \<open>
  Evaluation of the amended C2 on a V1 session. With two frequency lines and one S11
  line the sweep returns sequences of length one; with no frequency line it fails with the no-data
  error; on a port that fails every call it returns the failure of the frequency
  exchange; and on a port that falls silent after the frequency exchange it returns the
  failure of the S11 exchange.
\<close>

theorem RunSweep_lengths_witness:
  "(\<exists>data. fst (RunSweep exampleLib (deviceOn VariantV1 (scriptedPort sweepReads))) = Inr data
      \<and> Frequencies data = [1000000] \<and> S11 data = [Complex 0.5 (- 0.2)]
      \<and> length (Frequencies data) = 1 \<and> length (S11 data) = 1 \<and> length (S21 data) = 1)
   \<and> fst (RunSweep exampleLib (deviceOn VariantV1 (scriptedPort [ReadOk [], ReadOk ''ch> '', ReadOk [],
               ReadOk (''data 0'' @ crlf @ ''0.5 -0.2'' @ crlf @ ''ch> '')]))) = Inl ErrNoData
   \<and> fst (RunSweep exampleLib (deviceOn VariantV1 deadPort))
       = Inl (ErrFrequencies (ErrWriteFailed (ErrPort ''input/output error'')))
   \<and> fst (RunSweep exampleLib (deviceOn VariantV1 (scriptedPort [ReadOk [], ReadOk ''ch> ''])))
       = Inl (ErrS11 (ErrPort ''timeout''))"
proof -
  let ?a = "deviceOn VariantV1 (scriptedPort sweepReads)"
  let ?b = "deviceOn VariantV1 (scriptedPort [ReadOk [], ReadOk ''ch> '', ReadOk [],
               ReadOk (''data 0'' @ crlf @ ''0.5 -0.2'' @ crlf @ ''ch> '')])"
  obtain fa e1a d1a where a1:
    "sendCommand ?a (FreqCommand (CommandSet (hardwareInfo ?a))) = ((fa, e1a), d1a)"
    by (metis surj_pair)
  obtain sa e2a d2a where a2:
    "sendCommand d1a (Sprintf (DataCommand (CommandSet (hardwareInfo d1a))) [0]) = ((sa, e2a), d2a)"
    by (metis surj_pair)
  obtain fb e1b d1b where b1:
    "sendCommand ?b (FreqCommand (CommandSet (hardwareInfo ?b))) = ((fb, e1b), d1b)"
    by (metis surj_pair)
  obtain sb e2b d2b where b2:
    "sendCommand d1b (Sprintf (DataCommand (CommandSet (hardwareInfo d1b))) [0]) = ((sb, e2b), d2b)"
    by (metis surj_pair)
  note va = sweep_exchanges [OF a1 a2]
  note vb = noData_exchanges [OF b1 b2]
  have hw: "hardwareInfo ?a = getHardwareInfo VariantV1" "hardwareInfo ?b = getHardwareInfo VariantV1"
    by (simp_all add: deviceOn_def)
  have pa: "parseFrequencies exampleLib (FreqCommand (CommandSet (hardwareInfo ?a)))
              (PromptPattern (CommandSet (hardwareInfo d1a))) (Split fa (CHR 0x0A)) []
            = [1000000, 2000000]"
    "parseSamples exampleLib (PromptPattern (CommandSet (hardwareInfo d2a)))
              (Split sa (CHR 0x0A)) [] = [Complex 0.5 (- 0.2)]"
    using va
    by (simp_all add: hw crlf_def exampleLib_def asciiTrimSpace_def asciiSpace_def sampleParseFloat_def asciiFields_def)
  have pb: "parseFrequencies exampleLib (FreqCommand (CommandSet (hardwareInfo ?b)))
              (PromptPattern (CommandSet (hardwareInfo d1b))) (Split fb (CHR 0x0A)) [] = []"
    using vb
    by (simp add: hw crlf_def exampleLib_def asciiTrimSpace_def asciiSpace_def sampleParseFloat_def asciiFields_def)
  note ta = RunSweep_lengths [OF a1 a2 refl refl, of exampleLib, unfolded pa]
  note tb = RunSweep_lengths [OF b1 b2 refl refl, of exampleLib, unfolded pb]
  have ea: "e1a = None" "e2a = None" and eb: "e1b = None" "e2b = None"
    using va vb by simp_all
  from ta ea obtain data where d: "fst (RunSweep exampleLib ?a) = Inr data"
    by auto
  with ta have "Frequencies data = [1000000] \<and> S11 data = [Complex 0.5 (- 0.2)]
      \<and> length (Frequencies data) = 1 \<and> length (S11 data) = 1 \<and> length (S21 data) = 1"
    by simp
  with d have A: "\<exists>data. fst (RunSweep exampleLib ?a) = Inr data
      \<and> Frequencies data = [1000000] \<and> S11 data = [Complex 0.5 (- 0.2)]
      \<and> length (Frequencies data) = 1 \<and> length (S11 data) = 1 \<and> length (S21 data) = 1"
    by blast
  have B: "fst (RunSweep exampleLib ?b) = Inl ErrNoData"
    using tb eb by simp
  let ?c = "deviceOn VariantV1 deadPort"
  let ?d = "deviceOn VariantV1 (scriptedPort [ReadOk [], ReadOk ''ch> ''])"
  obtain fc e1c d1c where c1:
    "sendCommand ?c (FreqCommand (CommandSet (hardwareInfo ?c))) = ((fc, e1c), d1c)"
    by (metis surj_pair)
  obtain sc e2c d2c where c2:
    "sendCommand d1c (Sprintf (DataCommand (CommandSet (hardwareInfo d1c))) [0]) = ((sc, e2c), d2c)"
    by (metis surj_pair)
  obtain fd e1d d1d where d1:
    "sendCommand ?d (FreqCommand (CommandSet (hardwareInfo ?d))) = ((fd, e1d), d1d)"
    by (metis surj_pair)
  obtain sd e2d d2d where d2:
    "sendCommand d1d (Sprintf (DataCommand (CommandSet (hardwareInfo d1d))) [0]) = ((sd, e2d), d2d)"
    by (metis surj_pair)
  have ec: "e1c = Some (ErrWriteFailed (ErrPort ''input/output error''))"
    using c1
    by (auto simp: deviceOn_def deadPort_def sendCommand_def portRead_def portWrite_def)
  have ed: "e1d = None \<and> e2d = Some (ErrPort ''timeout'')"
    using d1 d2
    by (auto simp: deviceOn_def scriptedPort_def sendCommand_def portRead_def portWrite_def
        readLoop.simps maxAttempts_def simp del: Sprintf.simps)
  have C: "fst (RunSweep exampleLib ?c)
       = Inl (ErrFrequencies (ErrWriteFailed (ErrPort ''input/output error'')))"
    using RunSweep_lengths [OF c1 c2 refl refl, of exampleLib] ec by simp
  have D: "fst (RunSweep exampleLib ?d) = Inl (ErrS11 (ErrPort ''timeout''))"
    using RunSweep_lengths [OF d1 d2 refl refl, of exampleLib] ed by simp
  show ?thesis using A B C D by simp
qed

lemma sweep_exchanges_unknown:
  assumes "sendCommand (deviceOn VariantUnknown (scriptedPort sweepReads))
             (FreqCommand (CommandSet (hardwareInfo (deviceOn VariantUnknown (scriptedPort sweepReads)))))
             = ((freqResp, e1), d1)"
    and "sendCommand d1 (Sprintf (DataCommand (CommandSet (hardwareInfo d1))) [0]) = ((s11Resp, e2), d2)"
  shows "freqResp = ''frequencies'' @ crlf @ ''1000000'' @ crlf @ ''2000000'' @ crlf @ ''ch> ''
         \<and> e1 = None \<and> s11Resp = ''data 0'' @ crlf @ ''0.5 -0.2'' @ crlf @ ''ch> '' \<and> e2 = None
         \<and> hardwareInfo d1 = getHardwareInfo VariantUnknown
         \<and> hardwareInfo d2 = getHardwareInfo VariantUnknown"
  using assms
  by (auto simp: deviceOn_def scriptedPort_def sweepReads_def sendCommand_def portRead_def portWrite_def
      readLoop.simps maxAttempts_def crlf_def simp del: Sprintf.simps)

lemma RunSweep_unknown_example:
  "fst (RunSweep exampleLib (deviceOn VariantUnknown (scriptedPort sweepReads)))
   = Inr \<lparr>Frequencies = [1000000], S11 = [Complex 0.5 (- 0.2)], S21 = [Complex 0 0]\<rparr>"
proof -
  let ?u = "deviceOn VariantUnknown (scriptedPort sweepReads)"
  obtain fa e1 d1 where x1:
    "sendCommand ?u (FreqCommand (CommandSet (hardwareInfo ?u))) = ((fa, e1), d1)"
    by (metis surj_pair)
  obtain sa e2 d2 where x2:
    "sendCommand d1 (Sprintf (DataCommand (CommandSet (hardwareInfo d1))) [0]) = ((sa, e2), d2)"
    by (metis surj_pair)
  obtain sb e3 d3 where x3:
    "sendCommand d2 (Sprintf (DataCommand (CommandSet (hardwareInfo d2))) [1]) = ((sb, e3), d3)"
    by (metis surj_pair)
  note v = sweep_exchanges_unknown [OF x1 x2]
  have hw: "hardwareInfo ?u = getHardwareInfo VariantUnknown"
    by (simp add: deviceOn_def)
  have e: "e1 = None" "e2 = None" using v by simp_all
  have pa: "parseFrequencies exampleLib (FreqCommand (CommandSet (hardwareInfo ?u)))
              (PromptPattern (CommandSet (hardwareInfo d1))) (Split fa (CHR 0x0A)) []
            = [1000000, 2000000]"
    "parseSamples exampleLib (PromptPattern (CommandSet (hardwareInfo d2)))
              (Split sa (CHR 0x0A)) [] = [Complex 0.5 (- 0.2)]"
    using v
    by (simp_all add: hw crlf_def exampleLib_def asciiTrimSpace_def asciiSpace_def sampleParseFloat_def asciiFields_def)
  have no: "\<not> HasS21 (Capabilities (hardwareInfo d2))"
    using v by simp
  show ?thesis
    unfolding RunSweep_exchanges [OF x1 [unfolded e] x2 [unfolded e] x3 refl refl refl refl,
        of exampleLib] pa
    using no by (simp add: padZeros_replicate)
qed

text \<open>
  Evaluation of C9 on a session at the variant Unknown, whose capability record has no
  S21: the sweep returns one frequency, one S11 sample and one zero S21 sample.
\<close>

theorem RunSweep_no_S21_witness:
  "\<not> HasS21 (Capabilities (hardwareInfo (deviceOn VariantUnknown (scriptedPort sweepReads))))
   \<and> fst (RunSweep exampleLib (deviceOn VariantUnknown (scriptedPort sweepReads)))
       = Inr \<lparr>Frequencies = [1000000], S11 = [Complex 0.5 (- 0.2)], S21 = [Complex 0 0]\<rparr>
   \<and> S21 \<lparr>Frequencies = [1000000], S11 = [Complex 0.5 (- 0.2)], S21 = [Complex 0 0]\<rparr>
       = replicate 1 (Complex 0 0)"
proof -
  have h: "\<not> HasS21 (Capabilities (hardwareInfo (deviceOn VariantUnknown (scriptedPort sweepReads))))"
    by (simp add: deviceOn_def)
  from RunSweep_no_S21 [OF h RunSweep_unknown_example] h RunSweep_unknown_example
  show ?thesis by simp
qed

end
